theory Spec2Isabelle
  imports Main
begin

section \<open>Data model of src/index.js\<close>

text \<open>
  The handler of \<^verbatim>\<open>src/index.js\<close> talks to four collaborators: the edge cache
  (through \<^verbatim>\<open>fetch\<close> on \<^verbatim>\<open>https://cache/<key>\<close>), the S3 origin (through \<^verbatim>\<open>fetch\<close>
  on the backend \<^verbatim>\<open>s3_backend\<close>), the local logger and the BigQuery logger. What they
  answer is not decided by the program, so it is a parameter (\<open>env\<close>); what the program
  asks of them is recorded, in order, as a list of calls returned beside the result.
  The same holds for what the JavaScript runtime provides: whether the constructor
  \<^verbatim>\<open>CacheOverride\<close> accepts a mode and whether a \<^verbatim>\<open>Response\<close> has the method
  \<^verbatim>\<open>clone\<close> are parameters too.
  A JavaScript exception is a value \<open>Error msg\<close> on the left of a sum.
\<close>

type_synonym header_list = "(string \<times> string) list"
  \<comment> \<open>A \<^verbatim>\<open>Headers\<close> object, as the list its \<^verbatim>\<open>entries()\<close> iterates: names in lower
      case, sorted by name.\<close>

type_synonym js_object = "string \<rightharpoonup> string"
  \<comment> \<open>A plain object with string values: its own properties. The order in which
      JavaScript enumerates them is a function of the keys when they are inserted in
      sorted order, as here.\<close>

datatype js_error = Error string

fun message :: "js_error \<Rightarrow> string" where
  "message (Error m) = m"

record url =
  hostname :: string
  pathname :: string

record request =
  rq_url :: string
  rq_method :: string
  rq_headers :: header_list

record response =
  status :: nat
  rs_headers :: header_list
  body :: string

text \<open>
  The arguments of \<^verbatim>\<open>new Request(input, init)\<close> for the origin and for the cache write.
  \<open>s3_input\<close> and \<open>cr_input\<close> are the URL strings as the program builds them; the
  constructor parses and serialises them. The \<open>ttl\<close> and \<open>swr\<close> of the cache write are
  those of its \<^verbatim>\<open>CacheOverride\<close>.
\<close>

record s3_request =
  s3_input :: string
  s3_method :: string
  s3_headers :: header_list
  s3_backend :: string

record cache_request =
  cr_input :: string
  cr_method :: string
  cr_body :: string
  cr_headers :: header_list
  cr_ttl :: nat
  cr_swr :: nat

record request_info =
  timestamp :: string
  ip :: string
  domain :: string
  path :: string
  httpMethod :: string  \<comment> \<open>the key \<^verbatim>\<open>method\<close>\<close>
  userAgent :: string
  referer :: "string option"
  requestHeaders :: js_object
  url :: string

record log_data =
  requestInfo :: request_info
  cacheStatus :: string
  responseTime :: int
  s3ResponseHeaders :: "js_object option"
  error :: "string option"
  eventType :: string

record log_entry =
  service :: string
  version :: string
  logData :: log_data
  requestHeadersJson :: "string option"
  s3ResponseHeadersJson :: "string option"

text \<open>
  \<open>log_data\<close> is the object literal handed to \<^verbatim>\<open>logToBigQuery\<close>; the spread
  \<^verbatim>\<open>...requestInfo\<close> is the field \<open>requestInfo\<close>, and a key the literal leaves out
  (\<^verbatim>\<open>error\<close> on the hit and success paths) is \<open>None\<close>, as is \<^verbatim>\<open>null\<close>.
\<close>

datatype call =
    LoggerLog string
  | BigQueryLog log_entry
  | CacheGet string
  | CachePut cache_request
  | OriginGet s3_request

text \<open>
  \<open>LoggerLog m\<close> is \<^verbatim>\<open>logger.log(m)\<close>; \<open>BigQueryLog e\<close> is
  \<^verbatim>\<open>bigqueryLogger.log(JSON.stringify(e))\<close>; \<open>CacheGet u\<close> is the lookup
  \<^verbatim>\<open>fetch(new Request(u), {cacheOverride: ...})\<close>; \<open>CachePut r\<close> is the \<^verbatim>\<open>fetch\<close> of
  the \<^verbatim>\<open>PUT\<close> request in \<^verbatim>\<open>cacheResponse\<close>; \<open>OriginGet r\<close> is \<^verbatim>\<open>fetch(s3Request)\<close>.
  A call is in the list when \<^verbatim>\<open>fetch\<close> or \<^verbatim>\<open>log\<close> is called; an exception thrown while
  the arguments are still being evaluated leaves no call.
\<close>

record env =
  parseURL :: "string \<Rightarrow> js_error + url"
  Date_now :: "nat \<Rightarrow> int"
  Date_toISOString :: "nat \<Rightarrow> string"
  JSON_stringify_headers :: "js_object \<Rightarrow> string"
  JSON_stringify_entry :: "log_entry \<Rightarrow> string"
  new_CacheOverride :: "string \<Rightarrow> js_error option"
  Response_clone :: "js_error option"
  fetch_cache_get :: "string \<Rightarrow> js_error + response"
  fetch_cache_put :: "cache_request \<Rightarrow> js_error option"
  fetch_origin :: "s3_request \<Rightarrow> js_error + response"
  bigqueryLogger_log :: "log_entry \<Rightarrow> js_error option"

text \<open>
  \<open>parseURL\<close> is \<^verbatim>\<open>new URL(s)\<close>, which throws on a string that is no URL;
  \<open>Date_now k\<close> and \<open>Date_toISOString k\<close> are the k-th reading of the clock by
  \<^verbatim>\<open>Date.now()\<close> and by \<^verbatim>\<open>new Date().toISOString()\<close> during one request;
  \<open>JSON_stringify_*\<close> is \<^verbatim>\<open>JSON.stringify\<close>, which cannot throw on objects whose
  leaves are strings and numbers.
  \<open>new_CacheOverride mode\<close> says whether \<^verbatim>\<open>new CacheOverride(mode, ...)\<close> throws: the
  Fastly runtime knows the modes \<^verbatim>\<open>none\<close>, \<^verbatim>\<open>pass\<close> and \<^verbatim>\<open>override\<close>.
  \<open>Response_clone\<close> says whether calling \<^verbatim>\<open>clone()\<close> on a \<^verbatim>\<open>Response\<close> throws, as it
  does in a runtime whose \<^verbatim>\<open>Response\<close> has no such method; where it does not throw, the
  clone is a response with the same status, headers and body.
  Each \<open>fetch_*\<close> says whether that \<^verbatim>\<open>fetch\<close> throws (\<open>Inl\<close>, \<open>Some\<close>) or what it
  resolves to, and \<open>bigqueryLogger_log\<close> whether the write to the BigQuery endpoint
  throws. \<^verbatim>\<open>logger.log\<close> does not throw: every \<^verbatim>\<open>catch\<close> block of the file calls it.
  A response carries its whole body: reading it does not fail.
\<close>

section \<open>Constants\<close>

definition AWS_ACCESS_KEY_ID :: string where
  "AWS_ACCESS_KEY_ID = ''YOUR_AWS_ACCESS_KEY_ID''"

definition AWS_SECRET_ACCESS_KEY :: string where
  "AWS_SECRET_ACCESS_KEY = ''YOUR_AWS_SECRET_ACCESS_KEY''"

definition AWS_REGION :: string where
  "AWS_REGION = ''us-east-1''"

definition S3_BUCKET_NAME :: string where
  "S3_BUCKET_NAME = ''your-bucket-name''"

definition CACHE_TTL :: nat where
  "CACHE_TTL = 800"

section \<open>JavaScript primitives the file uses\<close>

fun show_nat :: "nat \<Rightarrow> string" where
  "show_nat n =
     (if n < 10 then [''0123456789'' ! n]
      else show_nat (n div 10) @ [''0123456789'' ! (n mod 10)])"

text \<open>\<open>show_nat n\<close> is the template substitution \<^verbatim>\<open>${n}\<close> of a non-negative integer.\<close>

definition headers_get :: "header_list \<Rightarrow> string \<Rightarrow> string option" where
  "headers_get hs name = map_of hs name"

text \<open>
  \<^verbatim>\<open>h.get(name)\<close> for a name written in lower case, as every name the file asks for is.
\<close>

text \<open>\<^verbatim>\<open>a || b\<close> on a string or \<^verbatim>\<open>null\<close>: \<^verbatim>\<open>null\<close> and the empty string are falsy.\<close>

definition truthy :: "string option \<Rightarrow> bool" where
  "truthy v = (case v of None \<Rightarrow> False | Some s \<Rightarrow> s \<noteq> [])"

definition js_or :: "string option \<Rightarrow> string option \<Rightarrow> string option" where
  "js_or a b = (if truthy a then a else b)"

definition js_or_str :: "string option \<Rightarrow> string \<Rightarrow> string" where
  "js_or_str a d = (case a of None \<Rightarrow> d | Some s \<Rightarrow> if s \<noteq> [] then s else d)"

definition entries_to_object :: "header_list \<Rightarrow> js_object" where
  "entries_to_object hs =
     fold (\<lambda>(key, value) headers.
             if key = ''__proto__'' then headers else headers(key \<mapsto> value))
          hs Map.empty"

text \<open>
  \<open>entries_to_object\<close> is the loop
  \<^verbatim>\<open>for (const [key, value] of h.entries()) { headers[key] = value; }\<close> on an empty object.
  Assigning a string to the key \<^verbatim>\<open>__proto__\<close> of a plain object creates no property.
\<close>

definition Response :: "string \<Rightarrow> nat \<Rightarrow> response" where
  "Response b st =
     \<lparr>status = st, rs_headers = [(''content-type'', ''text/plain;charset=UTF-8'')], body = b\<rparr>"

text \<open>\<^verbatim>\<open>new Response(b, {status: st})\<close> with a string body.\<close>

definition ok :: "response \<Rightarrow> bool" where
  "ok r = (200 \<le> status r \<and> status r \<le> 299)"

definition clone :: "env \<Rightarrow> response \<Rightarrow> js_error + response" where
  "clone e r = (case Response_clone e of Some err \<Rightarrow> Inl err | None \<Rightarrow> Inr r)"

text \<open>\<^verbatim>\<open>r.clone()\<close> on a response whose body has not been read.\<close>

section \<open>The functions of src/index.js\<close>

definition objectKey :: "string \<Rightarrow> string" where
  "objectKey p = (if take 1 p = ''/'' then drop 1 p else p)"

definition s3Url :: "string \<Rightarrow> string" where
  "s3Url p =
     ''https://'' @ S3_BUCKET_NAME @ ''.s3.'' @ AWS_REGION @ ''.amazonaws.com/'' @ objectKey p"

definition s3Request :: "string \<Rightarrow> s3_request" where
  "s3Request p =
     \<lparr>s3_input = s3Url p,
      s3_method = ''GET'',
      s3_headers =
        [(''authorization'', ''AWS '' @ AWS_ACCESS_KEY_ID @ '':'' @ AWS_SECRET_ACCESS_KEY),
         (''host'', S3_BUCKET_NAME @ ''.s3.'' @ AWS_REGION @ ''.amazonaws.com'')],
      s3_backend = ''s3_backend''\<rparr>"

text \<open>
  \<open>s3_headers\<close> is the \<^verbatim>\<open>Headers\<close> object after \<^verbatim>\<open>set('Host', ...)\<close> and
  \<^verbatim>\<open>set('Authorization', ...)\<close>.
\<close>

definition fetchFromS3 :: "env \<Rightarrow> string \<Rightarrow> (js_error + response) \<times> call list" where
  "fetchFromS3 e p = (fetch_origin e (s3Request p), [OriginGet (s3Request p)])"

text \<open>
  \<^verbatim>\<open>getCachedResponse\<close>: the second argument of \<^verbatim>\<open>fetch\<close>, with
  \<^verbatim>\<open>new CacheOverride("miss")\<close>, is evaluated before \<^verbatim>\<open>fetch\<close> is called; when the
  constructor throws, the lookup is not sent and the \<^verbatim>\<open>catch\<close> block returns \<^verbatim>\<open>null\<close>.
\<close>

definition getCachedResponse :: "env \<Rightarrow> string \<Rightarrow> response option \<times> call list" where
  "getCachedResponse e key =
     (let cacheRequest = ''https://cache/'' @ key in
      case new_CacheOverride e ''miss'' of
        Some err \<Rightarrow> (None, [LoggerLog (''Cache read error: '' @ message err)])
      | None \<Rightarrow>
          (case fetch_cache_get e cacheRequest of
             Inr cacheResponse \<Rightarrow>
               (if status cacheResponse = 200 then Some cacheResponse else None,
                [CacheGet cacheRequest])
           | Inl err \<Rightarrow>
               (None,
                [CacheGet cacheRequest, LoggerLog (''Cache read error: '' @ message err)])))"

text \<open>
  \<^verbatim>\<open>cacheResponse\<close>: \<^verbatim>\<open>response.clone()\<close>, then \<^verbatim>\<open>new CacheOverride("override", ...)\<close>,
  then \<^verbatim>\<open>fetch\<close>; whichever throws first ends in the \<^verbatim>\<open>catch\<close> block.
\<close>

definition cacheResponse :: "env \<Rightarrow> string \<Rightarrow> response \<Rightarrow> call list" where
  "cacheResponse e key r =
     (case clone e r of
        Inl err \<Rightarrow> [LoggerLog (''Cache write error: '' @ message err)]
      | Inr copy \<Rightarrow>
          (let cacheRequest =
                 \<lparr>cr_input = ''https://cache/'' @ key, cr_method = ''PUT'',
                  cr_body = body copy, cr_headers = rs_headers r, cr_ttl = CACHE_TTL,
                  cr_swr = 0\<rparr>
           in case new_CacheOverride e ''override'' of
                Some err \<Rightarrow> [LoggerLog (''Cache write error: '' @ message err)]
              | None \<Rightarrow>
                  (case fetch_cache_put e cacheRequest of
                     None \<Rightarrow>
                       [CachePut cacheRequest,
                        LoggerLog (''Response cached with key: '' @ key @ '', TTL: '' @
                                   show_nat CACHE_TTL @ ''s'')]
                   | Some err \<Rightarrow>
                       [CachePut cacheRequest,
                        LoggerLog (''Cache write error: '' @ message err)])))"

definition extractRequestInfo ::
    "env \<Rightarrow> nat \<Rightarrow> request \<Rightarrow> string \<Rightarrow> js_error + request_info" where
  "extractRequestInfo e k req p =
     (case parseURL e (rq_url req) of
        Inl err \<Rightarrow> Inl err
      | Inr u \<Rightarrow>
          (let headers = entries_to_object (rq_headers req);
               clientIP =
                 js_or_str
                   (js_or
                      (js_or (headers_get (rq_headers req) ''fastly-client-ip'')
                             (headers_get (rq_headers req) ''x-forwarded-for''))
                      (headers_get (rq_headers req) ''x-real-ip''))
                   ''unknown''
           in Inr \<lparr>timestamp = Date_toISOString e k,
                   ip = clientIP,
                   domain = hostname u,
                   path = p,
                   httpMethod = rq_method req,
                   userAgent = js_or_str (headers_get (rq_headers req) ''user-agent'') ''unknown'',
                   referer = js_or (headers_get (rq_headers req) ''referer'') None,
                   requestHeaders = headers,
                   url = rq_url req\<rparr>))"

text \<open>
  The second argument of \<open>extractRequestInfo\<close> is not in the source: it says which
  reading of \<^verbatim>\<open>new Date()\<close> this call makes (0 in the \<^verbatim>\<open>try\<close> block, 1 in the
  \<^verbatim>\<open>catch\<close> block of \<^verbatim>\<open>handleRequest\<close>).
\<close>

definition extractResponseHeaders :: "response \<Rightarrow> js_object" where
  "extractResponseHeaders r = entries_to_object (rs_headers r)"

definition logEntry :: "env \<Rightarrow> log_data \<Rightarrow> log_entry" where
  "logEntry e d =
     (let entry0 = \<lparr>service = ''motorcasino-edge-app'', version = ''1.0.0'', logData = d,
                    requestHeadersJson = None, s3ResponseHeadersJson = None\<rparr>;
          entry1 = entry0\<lparr>requestHeadersJson :=
                     Some (JSON_stringify_headers e (requestHeaders (requestInfo d)))\<rparr>
      in case s3ResponseHeaders d of
           None \<Rightarrow> entry1
         | Some h \<Rightarrow> entry1\<lparr>s3ResponseHeadersJson := Some (JSON_stringify_headers e h)\<rparr>)"

definition logToBigQuery :: "env \<Rightarrow> log_data \<Rightarrow> call list" where
  "logToBigQuery e d =
     (case bigqueryLogger_log e (logEntry e d) of
        None \<Rightarrow>
          [BigQueryLog (logEntry e d),
           LoggerLog (''BigQuery log entry: '' @ JSON_stringify_entry e (logEntry e d))]
      | Some err \<Rightarrow>
          [BigQueryLog (logEntry e d),
           LoggerLog (''BigQuery logging error: '' @ message err)])"

definition cacheKey :: "string \<Rightarrow> string" where
  "cacheKey p = ''s3-object:'' @ p"

text \<open>
  The \<^verbatim>\<open>try\<close> block of \<^verbatim>\<open>handleRequest\<close>. An exception leaves it as
  \<open>Inl (error, s3Response)\<close>, with the value the variable \<^verbatim>\<open>s3Response\<close> has at that
  moment: \<^verbatim>\<open>null\<close> until \<^verbatim>\<open>fetchFromS3\<close> has returned, the origin's response when
  \<^verbatim>\<open>s3Response.clone()\<close> throws after it.
\<close>

definition handleRequest_try ::
    "env \<Rightarrow> int \<Rightarrow> request \<Rightarrow> ((js_error \<times> response option) + response) \<times> call list" where
  "handleRequest_try e startTime req =
     (case parseURL e (rq_url req) of
        Inl err \<Rightarrow> (Inl (err, None), [])
      | Inr u \<Rightarrow>
          (let p = pathname u in
           case extractRequestInfo e 0 req p of
             Inl err \<Rightarrow> (Inl (err, None), [])
           | Inr info \<Rightarrow>
               (let t1 = [LoggerLog (''Processing request for path: '' @ p)];
                    key = cacheKey p;
                    (cachedResponse, t2) = getCachedResponse e key
                in case cachedResponse of
                     Some cached \<Rightarrow>
                       (Inr cached,
                        t1 @ t2 @ [LoggerLog (''Cache hit for path: '' @ p)] @
                        logToBigQuery e
                          \<lparr>requestInfo = info, cacheStatus = ''HIT'',
                           responseTime = Date_now e 1 - startTime,
                           s3ResponseHeaders = None, error = None,
                           eventType = ''cache_hit''\<rparr>)
                   | None \<Rightarrow>
                       (let t3 = [LoggerLog (''Cache miss for path: '' @ p @
                                             '', fetching from S3'')];
                            (fetched, t4) = fetchFromS3 e p
                        in case fetched of
                             Inl err \<Rightarrow> (Inl (err, None), t1 @ t2 @ t3 @ t4)
                           | Inr s3Response \<Rightarrow>
                               if \<not> ok s3Response then
                                 (Inr (Response ''Not Found'' 404),
                                  t1 @ t2 @ t3 @ t4 @
                                  [LoggerLog (''S3 fetch failed for path: '' @ p @
                                              '', status: '' @ show_nat (status s3Response))] @
                                  logToBigQuery e
                                    \<lparr>requestInfo = info, cacheStatus = ''MISS'',
                                     responseTime = Date_now e 1 - startTime,
                                     s3ResponseHeaders =
                                       Some (extractResponseHeaders s3Response),
                                     error = Some (''S3 fetch failed with status: '' @
                                                   show_nat (status s3Response)),
                                     eventType = ''s3_error''\<rparr>)
                               else
                                 (case clone e s3Response of
                                    Inl err \<Rightarrow>
                                      (Inl (err, Some s3Response), t1 @ t2 @ t3 @ t4)
                                  | Inr responseToCache \<Rightarrow>
                                      (Inr s3Response,
                                       t1 @ t2 @ t3 @ t4 @
                                       cacheResponse e key responseToCache @
                                       [LoggerLog (''Successfully fetched and cached '' @
                                                   ''response for path: '' @ p)] @
                                       logToBigQuery e
                                         \<lparr>requestInfo = info, cacheStatus = ''MISS'',
                                          responseTime = Date_now e 1 - startTime,
                                          s3ResponseHeaders =
                                            Some (extractResponseHeaders s3Response),
                                          error = None,
                                          eventType = ''success''\<rparr>))))))"

text \<open>
  \<^verbatim>\<open>handleRequest\<close>: the \<^verbatim>\<open>try\<close> block, and the \<^verbatim>\<open>catch\<close> block on what it throws.
  The \<^verbatim>\<open>catch\<close> block parses the URL and extracts the request information again; an
  exception there is not caught, and the promise of the handler rejects (\<open>Inl\<close>).
\<close>

definition handleRequest :: "env \<Rightarrow> request \<Rightarrow> (js_error + response) \<times> call list" where
  "handleRequest e req =
     (let startTime = Date_now e 0 in
      case handleRequest_try e startTime req of
        (Inr r, t) \<Rightarrow> (Inr r, t)
      | (Inl (err, s3Response), t) \<Rightarrow>
          (let t1 = t @ [LoggerLog (''Error processing request: '' @ message err)] in
           case parseURL e (rq_url req) of
             Inl err2 \<Rightarrow> (Inl err2, t1)
           | Inr u \<Rightarrow>
               (case extractRequestInfo e 1 req (pathname u) of
                  Inl err2 \<Rightarrow> (Inl err2, t1)
                | Inr info \<Rightarrow>
                    (Inr (Response ''Internal Server Error'' 500),
                     t1 @
                     logToBigQuery e
                       \<lparr>requestInfo = info, cacheStatus = ''ERROR'',
                        responseTime = Date_now e 1 - startTime,
                        s3ResponseHeaders = map_option extractResponseHeaders s3Response,
                        error = Some (message err),
                        eventType = ''error''\<rparr>))))"

section \<open>Observations on the calls of one request\<close>

fun telemetry :: "call list \<Rightarrow> log_entry list" where
  "telemetry [] = []"
| "telemetry (BigQueryLog x # cs) = x # telemetry cs"
| "telemetry (_ # cs) = telemetry cs"

fun cacheWrites :: "call list \<Rightarrow> cache_request list" where
  "cacheWrites [] = []"
| "cacheWrites (CachePut x # cs) = x # cacheWrites cs"
| "cacheWrites (_ # cs) = cacheWrites cs"

fun cacheReads :: "call list \<Rightarrow> string list" where
  "cacheReads [] = []"
| "cacheReads (CacheGet x # cs) = x # cacheReads cs"
| "cacheReads (_ # cs) = cacheReads cs"

fun externalCalls :: "call list \<Rightarrow> call list" where
  "externalCalls [] = []"
| "externalCalls (LoggerLog m # cs) = externalCalls cs"
| "externalCalls (c # cs) = c # externalCalls cs"

fun callsAfterLookup :: "call list \<Rightarrow> call list" where
  "callsAfterLookup [] = []"
| "callsAfterLookup (LoggerLog m # cs) = callsAfterLookup cs"
| "callsAfterLookup (CacheGet x # cs) = callsAfterLookup cs"
| "callsAfterLookup (c # cs) = c # callsAfterLookup cs"

text \<open>
  \<open>telemetry\<close> keeps the records handed to the BigQuery logger, \<open>cacheWrites\<close> the
  \<^verbatim>\<open>PUT\<close> requests sent to the cache, \<open>cacheReads\<close> the URLs of the lookups sent to the
  cache, \<open>externalCalls\<close> every call but the lines of the local debug logger, and
  \<open>callsAfterLookup\<close> the calls to the origin, the cache writes and the records for
  BigQuery. A call is recorded when it is made, also when it then throws.
\<close>

text \<open>
  The resolution of the client address in words: the first of the candidate header
  values that is present and not the empty string, else the default.
\<close>

fun first_nonempty :: "string option list \<Rightarrow> string \<Rightarrow> string" where
  "first_nonempty [] d = d"
| "first_nonempty (None # vs) d = first_nonempty vs d"
| "first_nonempty (Some s # vs) d = (if s = [] then first_nonempty vs d else s)"

section \<open>The scenarios of the specification, as concrete inputs\<close>

definition scenario_parseURL :: "string \<Rightarrow> js_error + url" where
  "scenario_parseURL s =
     (if s = ''https://example.com/images/logo.png''
      then Inr \<lparr>hostname = ''example.com'', pathname = ''/images/logo.png''\<rparr>
      else if s = ''https://example.com/missing.txt''
      then Inr \<lparr>hostname = ''example.com'', pathname = ''/missing.txt''\<rparr>
      else Inl (Error ''Invalid URL''))"

definition fastly_CacheOverride :: "string \<Rightarrow> js_error option" where
  "fastly_CacheOverride mode =
     (if mode = ''none'' \<or> mode = ''pass'' \<or> mode = ''override'' then None
      else Some (Error ''CacheOverride: mode must be none, pass or override''))"

text \<open>
  The scenarios run in the Fastly runtime: \<^verbatim>\<open>new CacheOverride("miss")\<close> throws, and a
  \<^verbatim>\<open>Response\<close> has no \<^verbatim>\<open>clone\<close>. \<open>with_lookup_and_clone\<close> turns an environment into
  one whose runtime accepts every mode and clones responses.
\<close>

definition scenario_env ::
    "(js_error + response) \<Rightarrow> (js_error + response) \<Rightarrow> js_error option \<Rightarrow> env" where
  "scenario_env cached origin put =
     \<lparr>parseURL = scenario_parseURL,
      Date_now = (\<lambda>k. 1000 + 45 * int k),
      Date_toISOString = (\<lambda>k. ''2024-01-15T10:30:45.123Z''),
      JSON_stringify_headers = (\<lambda>h. ''{}''),
      JSON_stringify_entry = (\<lambda>x. ''{}''),
      new_CacheOverride = fastly_CacheOverride,
      Response_clone = Some (Error ''s3Response.clone is not a function''),
      fetch_cache_get = (\<lambda>u. cached),
      fetch_cache_put = (\<lambda>r. put),
      fetch_origin = (\<lambda>r. origin),
      bigqueryLogger_log = (\<lambda>x. None)\<rparr>"

definition with_lookup_and_clone :: "env \<Rightarrow> env" where
  "with_lookup_and_clone e = e\<lparr>new_CacheOverride := \<lambda>mode. None, Response_clone := None\<rparr>"

definition logo_request :: request where
  "logo_request =
     \<lparr>rq_url = ''https://example.com/images/logo.png'', rq_method = ''GET'',
      rq_headers = [(''user-agent'', ''curl/8.0'')]\<rparr>"

definition missing_request :: request where
  "missing_request =
     \<lparr>rq_url = ''https://example.com/missing.txt'', rq_method = ''GET'', rq_headers = []\<rparr>"

definition logo_response :: response where
  "logo_response =
     \<lparr>status = 200, rs_headers = [(''content-type'', ''image/png'')], body = ''B''\<rparr>"

definition cache_absent :: response where
  "cache_absent = \<lparr>status = 404, rs_headers = [], body = []\<rparr>"

definition origin_404 :: response where
  "origin_404 =
     \<lparr>status = 404, rs_headers = [(''content-type'', ''application/xml'')],
      body = ''NoSuchKey''\<rparr>"

text \<open>
  Scenario A: \<^verbatim>\<open>/images/logo.png\<close> on an empty cache, the origin answers 200.
  Scenario C: \<^verbatim>\<open>/missing.txt\<close>, the origin answers 404.
  Scenario D: the call to the origin throws.
\<close>

definition scenario_A_env :: env where
  "scenario_A_env = scenario_env (Inr cache_absent) (Inr logo_response) None"

definition scenario_C_env :: env where
  "scenario_C_env = scenario_env (Inr cache_absent) (Inr origin_404) None"

definition scenario_D_env :: env where
  "scenario_D_env = scenario_env (Inr cache_absent) (Inl (Error ''connection timed out'')) None"

definition cache_down_env :: env where
  "cache_down_env =
     scenario_env (Inl (Error ''cache unreachable'')) (Inr logo_response)
       (Some (Error ''cache unreachable''))"

definition cache_fault_env :: env where
  "cache_fault_env =
     scenario_env (Inl (Error ''cache unreachable'')) (Inr origin_404)
       (Some (Error ''cache unreachable''))"

definition proxied_request :: request where
  "proxied_request =
     \<lparr>rq_url = ''https://example.com/images/logo.png'', rq_method = ''GET'',
      rq_headers = [(''fastly-client-ip'', []), (''x-forwarded-for'', ''203.0.113.7'')]\<rparr>"

section \<open>The calls made by each function\<close>

lemma externalCalls_append:
  "externalCalls (xs @ ys) = externalCalls xs @ externalCalls ys"
  by (induction xs rule: externalCalls.induct) simp_all

lemma telemetry_externalCalls: "telemetry (externalCalls t) = telemetry t"
  by (induction t rule: externalCalls.induct) simp_all

lemma cacheWrites_externalCalls: "cacheWrites (externalCalls t) = cacheWrites t"
  by (induction t rule: externalCalls.induct) simp_all

lemma cacheReads_externalCalls: "cacheReads (externalCalls t) = cacheReads t"
  by (induction t rule: externalCalls.induct) simp_all

lemma callsAfterLookup_externalCalls: "callsAfterLookup (externalCalls t) = callsAfterLookup t"
  by (induction t rule: externalCalls.induct) simp_all

lemma callsAfterLookup_append:
  "callsAfterLookup (xs @ ys) = callsAfterLookup xs @ callsAfterLookup ys"
  by (induction xs rule: callsAfterLookup.induct) simp_all

lemma cacheWrites_append: "cacheWrites (xs @ ys) = cacheWrites xs @ cacheWrites ys"
  by (induction xs rule: cacheWrites.induct) simp_all

lemma cacheReads_append: "cacheReads (xs @ ys) = cacheReads xs @ cacheReads ys"
  by (induction xs rule: cacheReads.induct) simp_all

lemma telemetry_append: "telemetry (xs @ ys) = telemetry xs @ telemetry ys"
  by (induction xs rule: telemetry.induct) simp_all

lemma externalCalls_logToBigQuery:
  "externalCalls (logToBigQuery e d) = [BigQueryLog (logEntry e d)]"
  by (simp add: logToBigQuery_def split: option.split)

lemma externalCalls_cacheResponse:
  "externalCalls (cacheResponse e key r) =
     (if Response_clone e = None \<and> new_CacheOverride e ''override'' = None
      then [CachePut \<lparr>cr_input = ''https://cache/'' @ key, cr_method = ''PUT'',
                      cr_body = body r, cr_headers = rs_headers r, cr_ttl = CACHE_TTL,
                      cr_swr = 0\<rparr>]
      else [])"
  by (simp add: cacheResponse_def clone_def Let_def split: option.split del: show_nat.simps)

lemma externalCalls_getCachedResponse:
  "externalCalls (snd (getCachedResponse e key)) =
     (if new_CacheOverride e ''miss'' = None then [CacheGet (''https://cache/'' @ key)] else [])"
  by (simp add: getCachedResponse_def Let_def split: sum.split option.split)

lemma externalCalls_fetchFromS3:
  "externalCalls (snd (fetchFromS3 e p)) = [OriginGet (s3Request p)]"
  by (simp add: fetchFromS3_def)

lemma observations_getCachedResponse:
  "telemetry (snd (getCachedResponse e key)) = []"
  "cacheWrites (snd (getCachedResponse e key)) = []"
  "callsAfterLookup (snd (getCachedResponse e key)) = []"
  by (simp_all add: getCachedResponse_def Let_def split: sum.split option.split)

lemma observations_cacheResponse:
  "telemetry (cacheResponse e key r) = []"
  "cacheReads (cacheResponse e key r) = []"
  by (simp_all add: cacheResponse_def clone_def Let_def split: sum.split option.split
        del: show_nat.simps)

lemma cacheWrites_cacheResponse:
  "\<forall>w \<in> set (cacheWrites (cacheResponse e key r)). cr_input w = ''https://cache/'' @ key"
  by (simp add: cacheResponse_def clone_def Let_def split: sum.split option.split
        del: show_nat.simps)

lemma getCachedResponse_constructor_throws:
  "new_CacheOverride e ''miss'' = Some err \<Longrightarrow> fst (getCachedResponse e key) = None"
  by (simp add: getCachedResponse_def Let_def)

lemma getCachedResponse_throws:
  "fetch_cache_get e (''https://cache/'' @ key) = Inl err \<Longrightarrow>
   fst (getCachedResponse e key) = None"
  by (simp add: getCachedResponse_def Let_def split: option.split)

lemma getCachedResponse_not_200:
  "fetch_cache_get e (''https://cache/'' @ key) = Inr m \<Longrightarrow> status m \<noteq> 200 \<Longrightarrow>
   fst (getCachedResponse e key) = None"
  by (simp add: getCachedResponse_def Let_def split: option.split)

lemma logData_logEntry: "logData (logEntry e d) = d"
  by (simp add: logEntry_def Let_def split: option.split)

lemma extractRequestInfo_Inr:
  "parseURL e (rq_url req) = Inr u \<Longrightarrow> \<exists>info. extractRequestInfo e k req p = Inr info"
  by (simp add: extractRequestInfo_def Let_def)

lemma fold_entries_absent:
  "map_of hs h = None \<Longrightarrow> acc h = None \<Longrightarrow>
   fold (\<lambda>(key, value) headers.
           if key = ''__proto__'' then headers else headers(key \<mapsto> value)) hs acc h = None"
proof (induction hs arbitrary: acc)
  case Nil
  then show ?case by simp
next
  case (Cons kv hs)
  obtain k v where kv: "kv = (k, v)" by (cases kv)
  from Cons.prems kv have "k \<noteq> h" and "map_of hs h = None"
    by (auto split: if_splits)
  moreover from \<open>k \<noteq> h\<close> Cons.prems(2)
  have "(if k = ''__proto__'' then acc else acc(k \<mapsto> v)) h = None"
    by simp
  ultimately show ?case
    using Cons.IH [of "if k = ''__proto__'' then acc else acc(k \<mapsto> v)"] kv by simp
qed

lemma entries_to_object_absent:
  "headers_get hs h = None \<Longrightarrow> entries_to_object hs h = None"
  by (simp add: headers_get_def entries_to_object_def fold_entries_absent)

section \<open>The paths of handleRequest\<close>

lemma try_parse_fails:
  "parseURL e (rq_url req) = Inl err \<Longrightarrow> handleRequest_try e st req = (Inl (err, None), [])"
  by (simp add: handleRequest_try_def)

lemma try_hit:
  assumes "parseURL e (rq_url req) = Inr u"
      and "extractRequestInfo e 0 req (pathname u) = Inr info"
      and "fst (getCachedResponse e (cacheKey (pathname u))) = Some c"
  shows "handleRequest_try e st req =
     (Inr c,
      [LoggerLog (''Processing request for path: '' @ pathname u)] @
      snd (getCachedResponse e (cacheKey (pathname u))) @
      [LoggerLog (''Cache hit for path: '' @ pathname u)] @
      logToBigQuery e
        \<lparr>requestInfo = info, cacheStatus = ''HIT'', responseTime = Date_now e 1 - st,
         s3ResponseHeaders = None, error = None, eventType = ''cache_hit''\<rparr>)"
  using assms by (simp add: handleRequest_try_def Let_def case_prod_beta)

lemma try_origin_throws:
  assumes "parseURL e (rq_url req) = Inr u"
      and "extractRequestInfo e 0 req (pathname u) = Inr info"
      and "fst (getCachedResponse e (cacheKey (pathname u))) = None"
      and "fetch_origin e (s3Request (pathname u)) = Inl err"
  shows "handleRequest_try e st req =
     (Inl (err, None),
      [LoggerLog (''Processing request for path: '' @ pathname u)] @
      snd (getCachedResponse e (cacheKey (pathname u))) @
      [LoggerLog (''Cache miss for path: '' @ pathname u @ '', fetching from S3'')] @
      snd (fetchFromS3 e (pathname u)))"
  using assms by (simp add: handleRequest_try_def Let_def fetchFromS3_def case_prod_beta)

lemma try_origin_not_ok:
  assumes "parseURL e (rq_url req) = Inr u"
      and "extractRequestInfo e 0 req (pathname u) = Inr info"
      and "fst (getCachedResponse e (cacheKey (pathname u))) = None"
      and "fetch_origin e (s3Request (pathname u)) = Inr r"
      and "\<not> ok r"
  shows "handleRequest_try e st req =
     (Inr (Response ''Not Found'' 404),
      [LoggerLog (''Processing request for path: '' @ pathname u)] @
      snd (getCachedResponse e (cacheKey (pathname u))) @
      [LoggerLog (''Cache miss for path: '' @ pathname u @ '', fetching from S3'')] @
      snd (fetchFromS3 e (pathname u)) @
      [LoggerLog (''S3 fetch failed for path: '' @ pathname u @ '', status: '' @
                  show_nat (status r))] @
      logToBigQuery e
        \<lparr>requestInfo = info, cacheStatus = ''MISS'', responseTime = Date_now e 1 - st,
         s3ResponseHeaders = Some (extractResponseHeaders r),
         error = Some (''S3 fetch failed with status: '' @ show_nat (status r)),
         eventType = ''s3_error''\<rparr>)"
  using assms
  by (simp add: handleRequest_try_def Let_def fetchFromS3_def case_prod_beta
           del: show_nat.simps)

lemma try_clone_throws:
  assumes "parseURL e (rq_url req) = Inr u"
      and "extractRequestInfo e 0 req (pathname u) = Inr info"
      and "fst (getCachedResponse e (cacheKey (pathname u))) = None"
      and "fetch_origin e (s3Request (pathname u)) = Inr r"
      and "ok r"
      and "Response_clone e = Some cerr"
  shows "handleRequest_try e st req =
     (Inl (cerr, Some r),
      [LoggerLog (''Processing request for path: '' @ pathname u)] @
      snd (getCachedResponse e (cacheKey (pathname u))) @
      [LoggerLog (''Cache miss for path: '' @ pathname u @ '', fetching from S3'')] @
      snd (fetchFromS3 e (pathname u)))"
  using assms
  by (simp add: handleRequest_try_def Let_def fetchFromS3_def clone_def case_prod_beta
           del: show_nat.simps)

lemma try_origin_ok:
  assumes "parseURL e (rq_url req) = Inr u"
      and "extractRequestInfo e 0 req (pathname u) = Inr info"
      and "fst (getCachedResponse e (cacheKey (pathname u))) = None"
      and "fetch_origin e (s3Request (pathname u)) = Inr r"
      and "ok r"
      and "Response_clone e = None"
  shows "handleRequest_try e st req =
     (Inr r,
      [LoggerLog (''Processing request for path: '' @ pathname u)] @
      snd (getCachedResponse e (cacheKey (pathname u))) @
      [LoggerLog (''Cache miss for path: '' @ pathname u @ '', fetching from S3'')] @
      snd (fetchFromS3 e (pathname u)) @
      cacheResponse e (cacheKey (pathname u)) r @
      [LoggerLog (''Successfully fetched and cached response for path: '' @ pathname u)] @
      logToBigQuery e
        \<lparr>requestInfo = info, cacheStatus = ''MISS'', responseTime = Date_now e 1 - st,
         s3ResponseHeaders = Some (extractResponseHeaders r), error = None,
         eventType = ''success''\<rparr>)"
  using assms
  by (simp add: handleRequest_try_def Let_def fetchFromS3_def clone_def case_prod_beta
           del: show_nat.simps)

lemma handleRequest_of_try_Inr:
  "handleRequest_try e (Date_now e 0) req = (Inr r, t) \<Longrightarrow> handleRequest e req = (Inr r, t)"
  by (simp add: handleRequest_def)

lemma handleRequest_of_try_Inl:
  assumes "handleRequest_try e (Date_now e 0) req = (Inl (err, s3r), t)"
      and "parseURL e (rq_url req) = Inr u"
      and "extractRequestInfo e 1 req (pathname u) = Inr info"
  shows "handleRequest e req =
     (Inr (Response ''Internal Server Error'' 500),
      t @ [LoggerLog (''Error processing request: '' @ message err)] @
      logToBigQuery e
        \<lparr>requestInfo = info, cacheStatus = ''ERROR'',
         responseTime = Date_now e 1 - Date_now e 0,
         s3ResponseHeaders = map_option extractResponseHeaders s3r,
         error = Some (message err), eventType = ''error''\<rparr>)"
  using assms by (simp add: handleRequest_def)

lemma handleRequest_parse_fails:
  "parseURL e (rq_url req) = Inl err \<Longrightarrow>
   handleRequest e req = (Inl err, [LoggerLog (''Error processing request: '' @ message err)])"
  by (simp add: handleRequest_def try_parse_fails)

lemmas externalCalls_simps =
  externalCalls_append externalCalls_logToBigQuery externalCalls_fetchFromS3

lemma handleRequest_hit:
  assumes "parseURL e (rq_url req) = Inr u"
      and "extractRequestInfo e 0 req (pathname u) = Inr info"
      and "fst (getCachedResponse e (cacheKey (pathname u))) = Some c"
  shows "fst (handleRequest e req) = Inr c"
    and "externalCalls (snd (handleRequest e req)) =
      externalCalls (snd (getCachedResponse e (cacheKey (pathname u)))) @
      [BigQueryLog (logEntry e \<lparr>requestInfo = info, cacheStatus = ''HIT'',
         responseTime = Date_now e 1 - Date_now e 0,
         s3ResponseHeaders = None, error = None, eventType = ''cache_hit''\<rparr>)]"
  using handleRequest_of_try_Inr [OF try_hit [OF assms]]
  by (simp_all add: externalCalls_simps)

lemma handleRequest_origin_throws:
  assumes "parseURL e (rq_url req) = Inr u"
      and "extractRequestInfo e 0 req (pathname u) = Inr info0"
      and "extractRequestInfo e 1 req (pathname u) = Inr info"
      and "fst (getCachedResponse e (cacheKey (pathname u))) = None"
      and "fetch_origin e (s3Request (pathname u)) = Inl err"
  shows "fst (handleRequest e req) = Inr (Response ''Internal Server Error'' 500)"
    and "externalCalls (snd (handleRequest e req)) =
      externalCalls (snd (getCachedResponse e (cacheKey (pathname u)))) @
      [OriginGet (s3Request (pathname u)),
       BigQueryLog (logEntry e \<lparr>requestInfo = info, cacheStatus = ''ERROR'',
         responseTime = Date_now e 1 - Date_now e 0,
         s3ResponseHeaders = None, error = Some (message err), eventType = ''error''\<rparr>)]"
  using handleRequest_of_try_Inl [OF try_origin_throws [OF assms(1,2,4,5)] assms(1,3)]
  by (simp_all add: externalCalls_simps)

lemma handleRequest_origin_not_ok:
  assumes "parseURL e (rq_url req) = Inr u"
      and "extractRequestInfo e 0 req (pathname u) = Inr info"
      and "fst (getCachedResponse e (cacheKey (pathname u))) = None"
      and "fetch_origin e (s3Request (pathname u)) = Inr r"
      and "\<not> ok r"
  shows "fst (handleRequest e req) = Inr (Response ''Not Found'' 404)"
    and "externalCalls (snd (handleRequest e req)) =
      externalCalls (snd (getCachedResponse e (cacheKey (pathname u)))) @
      [OriginGet (s3Request (pathname u)),
       BigQueryLog (logEntry e \<lparr>requestInfo = info, cacheStatus = ''MISS'',
         responseTime = Date_now e 1 - Date_now e 0,
         s3ResponseHeaders = Some (extractResponseHeaders r),
         error = Some (''S3 fetch failed with status: '' @ show_nat (status r)),
         eventType = ''s3_error''\<rparr>)]"
  using handleRequest_of_try_Inr [OF try_origin_not_ok [OF assms]]
  by (simp_all add: externalCalls_simps del: show_nat.simps)

lemma handleRequest_clone_throws:
  assumes "parseURL e (rq_url req) = Inr u"
      and "extractRequestInfo e 0 req (pathname u) = Inr info0"
      and "extractRequestInfo e 1 req (pathname u) = Inr info"
      and "fst (getCachedResponse e (cacheKey (pathname u))) = None"
      and "fetch_origin e (s3Request (pathname u)) = Inr r"
      and "ok r"
      and "Response_clone e = Some cerr"
  shows "fst (handleRequest e req) = Inr (Response ''Internal Server Error'' 500)"
    and "externalCalls (snd (handleRequest e req)) =
      externalCalls (snd (getCachedResponse e (cacheKey (pathname u)))) @
      [OriginGet (s3Request (pathname u)),
       BigQueryLog (logEntry e \<lparr>requestInfo = info, cacheStatus = ''ERROR'',
         responseTime = Date_now e 1 - Date_now e 0,
         s3ResponseHeaders = Some (extractResponseHeaders r),
         error = Some (message cerr), eventType = ''error''\<rparr>)]"
  using handleRequest_of_try_Inl [OF try_clone_throws [OF assms(1,2,4,5,6,7)] assms(1,3)]
  by (simp_all add: externalCalls_simps)

lemma handleRequest_origin_ok:
  assumes "parseURL e (rq_url req) = Inr u"
      and "extractRequestInfo e 0 req (pathname u) = Inr info"
      and "fst (getCachedResponse e (cacheKey (pathname u))) = None"
      and "fetch_origin e (s3Request (pathname u)) = Inr r"
      and "ok r"
      and "Response_clone e = None"
  shows "fst (handleRequest e req) = Inr r"
    and "externalCalls (snd (handleRequest e req)) =
      externalCalls (snd (getCachedResponse e (cacheKey (pathname u)))) @
      [OriginGet (s3Request (pathname u))] @
      externalCalls (cacheResponse e (cacheKey (pathname u)) r) @
      [BigQueryLog (logEntry e \<lparr>requestInfo = info, cacheStatus = ''MISS'',
         responseTime = Date_now e 1 - Date_now e 0,
         s3ResponseHeaders = Some (extractResponseHeaders r), error = None,
         eventType = ''success''\<rparr>)]"
  using handleRequest_of_try_Inr [OF try_origin_ok [OF assms]]
  by (simp_all add: externalCalls_simps del: show_nat.simps)

text \<open>What the handler answers and sends to BigQuery, path by path.\<close>

lemma telemetry_cases:
  assumes "parseURL e (rq_url req) = Inr u"
  obtains
    (hit) c info where
      "fst (getCachedResponse e (cacheKey (pathname u))) = Some c"
      "fst (handleRequest e req) = Inr c"
      "telemetry (snd (handleRequest e req)) =
        [logEntry e \<lparr>requestInfo = info, cacheStatus = ''HIT'',
           responseTime = Date_now e 1 - Date_now e 0,
           s3ResponseHeaders = None, error = None, eventType = ''cache_hit''\<rparr>]"
  | (fault) err info where
      "fst (getCachedResponse e (cacheKey (pathname u))) = None"
      "fetch_origin e (s3Request (pathname u)) = Inl err"
      "fst (handleRequest e req) = Inr (Response ''Internal Server Error'' 500)"
      "telemetry (snd (handleRequest e req)) =
        [logEntry e \<lparr>requestInfo = info, cacheStatus = ''ERROR'',
           responseTime = Date_now e 1 - Date_now e 0,
           s3ResponseHeaders = None, error = Some (message err), eventType = ''error''\<rparr>]"
  | (failure) r info where
      "fst (getCachedResponse e (cacheKey (pathname u))) = None"
      "fetch_origin e (s3Request (pathname u)) = Inr r" "\<not> ok r"
      "fst (handleRequest e req) = Inr (Response ''Not Found'' 404)"
      "telemetry (snd (handleRequest e req)) =
        [logEntry e \<lparr>requestInfo = info, cacheStatus = ''MISS'',
           responseTime = Date_now e 1 - Date_now e 0,
           s3ResponseHeaders = Some (extractResponseHeaders r),
           error = Some (''S3 fetch failed with status: '' @ show_nat (status r)),
           eventType = ''s3_error''\<rparr>]"
  | (clone_fault) r cerr info where
      "fst (getCachedResponse e (cacheKey (pathname u))) = None"
      "fetch_origin e (s3Request (pathname u)) = Inr r" "ok r"
      "Response_clone e = Some cerr"
      "fst (handleRequest e req) = Inr (Response ''Internal Server Error'' 500)"
      "telemetry (snd (handleRequest e req)) =
        [logEntry e \<lparr>requestInfo = info, cacheStatus = ''ERROR'',
           responseTime = Date_now e 1 - Date_now e 0,
           s3ResponseHeaders = Some (extractResponseHeaders r),
           error = Some (message cerr), eventType = ''error''\<rparr>]"
  | (success) r info where
      "fst (getCachedResponse e (cacheKey (pathname u))) = None"
      "fetch_origin e (s3Request (pathname u)) = Inr r" "ok r"
      "Response_clone e = None"
      "fst (handleRequest e req) = Inr r"
      "telemetry (snd (handleRequest e req)) =
        [logEntry e \<lparr>requestInfo = info, cacheStatus = ''MISS'',
           responseTime = Date_now e 1 - Date_now e 0,
           s3ResponseHeaders = Some (extractResponseHeaders r), error = None,
           eventType = ''success''\<rparr>]"
proof -
  obtain info0 where i0: "extractRequestInfo e 0 req (pathname u) = Inr info0"
    using extractRequestInfo_Inr [OF assms] by blast
  obtain info1 where i1: "extractRequestInfo e 1 req (pathname u) = Inr info1"
    using extractRequestInfo_Inr [OF assms] by blast
  have tel: "\<And>l. externalCalls (snd (handleRequest e req)) = l \<Longrightarrow>
                 telemetry (snd (handleRequest e req)) = telemetry l"
    using telemetry_externalCalls [of "snd (handleRequest e req)"] by simp
  note ts = telemetry_append telemetry_externalCalls observations_getCachedResponse
    observations_cacheResponse
  show thesis
  proof (cases "fst (getCachedResponse e (cacheKey (pathname u)))")
    case (Some c)
    show thesis
      using hit [OF Some] handleRequest_hit(1) [OF assms i0 Some]
        tel [OF handleRequest_hit(2) [OF assms i0 Some]] by (simp add: ts)
  next
    case None
    show thesis
    proof (cases "fetch_origin e (s3Request (pathname u))")
      case (Inl err)
      show thesis
        using fault [OF None Inl] handleRequest_origin_throws(1) [OF assms i0 i1 None Inl]
          tel [OF handleRequest_origin_throws(2) [OF assms i0 i1 None Inl]]
        by (simp add: ts)
    next
      case (Inr r)
      show thesis
      proof (cases "ok r")
        case True
        show thesis
        proof (cases "Response_clone e")
          case None': None
          show thesis
            using success [OF None Inr True None']
              handleRequest_origin_ok(1) [OF assms i0 None Inr True None']
              tel [OF handleRequest_origin_ok(2) [OF assms i0 None Inr True None']]
            by (simp add: ts)
        next
          case (Some cerr)
          show thesis
            using clone_fault [OF None Inr True Some]
              handleRequest_clone_throws(1) [OF assms i0 i1 None Inr True Some]
              tel [OF handleRequest_clone_throws(2) [OF assms i0 i1 None Inr True Some]]
            by (simp add: ts)
        qed
      next
        case False
        show thesis
          using failure [OF None Inr False]
            handleRequest_origin_not_ok(1) [OF assms i0 None Inr False]
            tel [OF handleRequest_origin_not_ok(2) [OF assms i0 None Inr False]]
          by (simp add: ts del: show_nat.simps)
      qed
    qed
  qed
qed

section \<open>Facts about the scenarios\<close>

lemma scenario_parse_logo:
  "parseURL (scenario_env c orig p) ''https://example.com/images/logo.png'' =
     Inr \<lparr>hostname = ''example.com'', pathname = ''/images/logo.png''\<rparr>"
  by (simp add: scenario_env_def scenario_parseURL_def)

lemma scenario_parse_missing:
  "parseURL (scenario_env c orig p) ''https://example.com/missing.txt'' =
     Inr \<lparr>hostname = ''example.com'', pathname = ''/missing.txt''\<rparr>"
  by (simp add: scenario_env_def scenario_parseURL_def)

lemma scenario_fetches:
  "fetch_cache_get (scenario_env c orig p) x = c"
  "fetch_origin (scenario_env c orig p) y = orig"
  "fetch_cache_put (scenario_env c orig p) z = p"
  by (simp_all add: scenario_env_def)

lemma scenario_runtime:
  "new_CacheOverride (scenario_env c orig p) ''miss'' =
     Some (Error ''CacheOverride: mode must be none, pass or override'')"
  "new_CacheOverride (scenario_env c orig p) ''override'' = None"
  "Response_clone (scenario_env c orig p) = Some (Error ''s3Response.clone is not a function'')"
  by (simp_all add: scenario_env_def fastly_CacheOverride_def)

lemma scenario_lookup_none:
  "fst (getCachedResponse (scenario_env c orig p) key) = None"
  by (rule getCachedResponse_constructor_throws) (rule scenario_runtime(1))

lemma with_lookup_and_clone_frame:
  "parseURL (with_lookup_and_clone e) = parseURL e"
  "fetch_cache_get (with_lookup_and_clone e) = fetch_cache_get e"
  "fetch_cache_put (with_lookup_and_clone e) = fetch_cache_put e"
  "fetch_origin (with_lookup_and_clone e) = fetch_origin e"
  "new_CacheOverride (with_lookup_and_clone e) mode = None"
  "Response_clone (with_lookup_and_clone e) = None"
  by (simp_all add: with_lookup_and_clone_def)

section \<open>Changing what the cache answers\<close>

lemma cache_lookup_update_frame:
  "extractRequestInfo
     (e\<lparr>new_CacheOverride := (new_CacheOverride e)(''miss'' := None),
        fetch_cache_get := g\<rparr>) k req p = extractRequestInfo e k req p"
  "logEntry
     (e\<lparr>new_CacheOverride := (new_CacheOverride e)(''miss'' := None),
        fetch_cache_get := g\<rparr>) d = logEntry e d"
  "externalCalls (cacheResponse
     (e\<lparr>new_CacheOverride := (new_CacheOverride e)(''miss'' := None),
        fetch_cache_get := g\<rparr>) key r) = externalCalls (cacheResponse e key r)"
  by (simp_all add: extractRequestInfo_def logEntry_def externalCalls_cacheResponse Let_def
        split: sum.split option.split)

section \<open>The calls to the cache\<close>

lemma cache_calls_of_handleRequest:
  assumes "parseURL e (rq_url req) = Inr u"
  shows "cacheReads (snd (handleRequest e req)) =
           (if new_CacheOverride e ''miss'' = None
            then [''https://cache/'' @ cacheKey (pathname u)] else [])"
    and "\<forall>w \<in> set (cacheWrites (snd (handleRequest e req))).
           cr_input w = ''https://cache/'' @ cacheKey (pathname u)"
proof -
  obtain i0 where i0: "extractRequestInfo e 0 req (pathname u) = Inr i0"
    using extractRequestInfo_Inr [OF assms] by blast
  obtain i1 where i1: "extractRequestInfo e 1 req (pathname u) = Inr i1"
    using extractRequestInfo_Inr [OF assms] by blast
  let ?t = "snd (handleRequest e req)"
  let ?L = "externalCalls (snd (getCachedResponse e (cacheKey (pathname u))))"
  let ?W = "externalCalls (cacheResponse e (cacheKey (pathname u)) r)"
  have shape: "\<exists>ws bq. externalCalls ?t = ?L @ ws @ [BigQueryLog bq] \<and>
                 cacheReads ws = [] \<and>
                 (\<forall>w \<in> set (cacheWrites ws).
                     cr_input w = ''https://cache/'' @ cacheKey (pathname u))"
  proof (cases "fst (getCachedResponse e (cacheKey (pathname u)))")
    case (Some c)
    show ?thesis
      using handleRequest_hit(2) [OF assms i0 Some]
      by (intro exI [of _ "[]"] exI) simp
  next
    case None
    show ?thesis
    proof (cases "fetch_origin e (s3Request (pathname u))")
      case (Inl x)
      show ?thesis
        using handleRequest_origin_throws(2) [OF assms i0 i1 None Inl]
        by (intro exI [of _ "[OriginGet (s3Request (pathname u))]"] exI) simp
    next
      case (Inr r)
      show ?thesis
      proof (cases "ok r")
        case False
        show ?thesis
          using handleRequest_origin_not_ok(2) [OF assms i0 None Inr False]
          by (intro exI [of _ "[OriginGet (s3Request (pathname u))]"] exI)
             (simp del: show_nat.simps)
      next
        case True
        show ?thesis
        proof (cases "Response_clone e")
          case (Some cerr)
          show ?thesis
            using handleRequest_clone_throws(2) [OF assms i0 i1 None Inr True Some]
            by (intro exI [of _ "[OriginGet (s3Request (pathname u))]"] exI) simp
        next
          case None': None
          show ?thesis
            using handleRequest_origin_ok(2) [OF assms i0 None Inr True None']
            by (intro exI [of _ "[OriginGet (s3Request (pathname u))] @
                     externalCalls (cacheResponse e (cacheKey (pathname u)) r)"] exI)
               (simp add: cacheReads_externalCalls cacheWrites_externalCalls
                  observations_cacheResponse cacheWrites_cacheResponse)
        qed
      qed
    qed
  qed
  then obtain ws bq where ws: "externalCalls ?t = ?L @ ws @ [BigQueryLog bq]"
      "cacheReads ws = []"
      "\<forall>w \<in> set (cacheWrites ws). cr_input w = ''https://cache/'' @ cacheKey (pathname u)"
    by blast
  have "cacheReads ?t = cacheReads (externalCalls ?t)"
    by (simp add: cacheReads_externalCalls)
  also have "\<dots> = cacheReads ?L"
    by (simp add: ws(1,2) cacheReads_append)
  finally show "cacheReads ?t =
           (if new_CacheOverride e ''miss'' = None
            then [''https://cache/'' @ cacheKey (pathname u)] else [])"
    by (simp add: externalCalls_getCachedResponse)
  have "cacheWrites ?t = cacheWrites (externalCalls ?t)"
    by (simp add: cacheWrites_externalCalls)
  also have "\<dots> = cacheWrites ws"
    by (simp add: ws(1) cacheWrites_append cacheWrites_externalCalls
          observations_getCachedResponse)
  finally show "\<forall>w \<in> set (cacheWrites ?t).
           cr_input w = ''https://cache/'' @ cacheKey (pathname u)"
    using ws(3) by simp
qed

section \<open>The claims\<close>

text \<open>
  C1, as the specification states it: when the fetch from the origin throws (a transport
  fault), the handler answers 404 "Not Found" and logs an origin-error event.
  The code does otherwise: \<^verbatim>\<open>fetchFromS3\<close> has no \<^verbatim>\<open>try\<close> of its own, the exception
  reaches the \<^verbatim>\<open>catch\<close> block of \<^verbatim>\<open>handleRequest\<close>, and the answer is 500
  "Internal Server Error" with an \<^verbatim>\<open>error\<close> event. Scenario D shows it.
\<close>

theorem transport_fault_counterexample:
  "fst (getCachedResponse scenario_D_env (cacheKey ''/images/logo.png'')) = None \<and>
   fetch_origin scenario_D_env (s3Request ''/images/logo.png'') =
     Inl (Error ''connection timed out'') \<and>
   fst (handleRequest scenario_D_env logo_request) =
     Inr \<lparr>status = 500, rs_headers = [(''content-type'', ''text/plain;charset=UTF-8'')],
          body = ''Internal Server Error''\<rparr> \<and>
   fst (handleRequest scenario_D_env logo_request) \<noteq> Inr (Response ''Not Found'' 404) \<and>
   map (eventType \<circ> logData) (telemetry (snd (handleRequest scenario_D_env logo_request))) =
     [''error'']"
proof -
  have p: "parseURL scenario_D_env (rq_url logo_request) =
             Inr \<lparr>hostname = ''example.com'', pathname = ''/images/logo.png''\<rparr>"
    by (simp add: scenario_D_env_def logo_request_def scenario_parse_logo)
  have m: "fst (getCachedResponse scenario_D_env (cacheKey ''/images/logo.png'')) = None"
    by (simp add: scenario_D_env_def scenario_lookup_none)
  have f: "fetch_origin scenario_D_env (s3Request ''/images/logo.png'') =
             Inl (Error ''connection timed out'')"
    by (simp add: scenario_D_env_def scenario_fetches)
  obtain i0 where i0: "extractRequestInfo scenario_D_env 0 logo_request ''/images/logo.png'' = Inr i0"
    using extractRequestInfo_Inr [OF p] by blast
  obtain i1 where i1: "extractRequestInfo scenario_D_env 1 logo_request ''/images/logo.png'' = Inr i1"
    using extractRequestInfo_Inr [OF p] by blast
  have r: "fst (handleRequest scenario_D_env logo_request) =
             Inr (Response ''Internal Server Error'' 500)"
    using handleRequest_origin_throws(1) [OF p, of i0 i1] i0 i1 m f by simp
  have "telemetry (externalCalls (snd (handleRequest scenario_D_env logo_request))) =
          [logEntry scenario_D_env \<lparr>requestInfo = i1, cacheStatus = ''ERROR'',
             responseTime = Date_now scenario_D_env 1 - Date_now scenario_D_env 0,
             s3ResponseHeaders = None, error = Some ''connection timed out'',
             eventType = ''error''\<rparr>]"
    using handleRequest_origin_throws(2) [OF p, of i0 i1] i0 i1 m f
    by (simp add: telemetry_append telemetry_externalCalls observations_getCachedResponse)
  then have t: "map (eventType \<circ> logData)
                  (telemetry (snd (handleRequest scenario_D_env logo_request))) = [''error'']"
    by (simp add: telemetry_externalCalls logData_logEntry)
  from m f r t show ?thesis
    by (simp add: Response_def)
qed

text \<open>
  C1, amended to what the code does: for every request whose URL parses (the URL of an
  inbound request always does), whose cache lookup yields no object and whose fetch from
  the origin throws, the handler answers status 500 with the body "Internal Server Error",
  writes no object to the cache, and sends exactly one record to BigQuery, with
  \<^verbatim>\<open>cacheStatus\<close> ERROR, \<^verbatim>\<open>eventType\<close> error, the message of the exception as
  \<^verbatim>\<open>error\<close> and no origin response headers.
\<close>

theorem transport_fault_gives_500:
  assumes "parseURL e (rq_url req) = Inr u"
      and "fst (getCachedResponse e (cacheKey (pathname u))) = None"
      and "fetch_origin e (s3Request (pathname u)) = Inl err"
  shows "\<exists>r. fst (handleRequest e req) = Inr r \<and> status r = 500 \<and>
             body r = ''Internal Server Error'' \<and>
             cacheWrites (snd (handleRequest e req)) = [] \<and>
             map (\<lambda>x. (cacheStatus (logData x), eventType (logData x), error (logData x),
                        s3ResponseHeaders (logData x)))
                 (telemetry (snd (handleRequest e req))) =
               [(''ERROR'', ''error'', Some (message err), None)]"
proof -
  obtain i0 where i0: "extractRequestInfo e 0 req (pathname u) = Inr i0"
    using extractRequestInfo_Inr [OF assms(1)] by blast
  obtain i1 where i1: "extractRequestInfo e 1 req (pathname u) = Inr i1"
    using extractRequestInfo_Inr [OF assms(1)] by blast
  note h = handleRequest_origin_throws [OF assms(1) i0 i1 assms(2,3)]
  have "telemetry (externalCalls (snd (handleRequest e req))) =
          [logEntry e \<lparr>requestInfo = i1, cacheStatus = ''ERROR'',
             responseTime = Date_now e 1 - Date_now e 0,
             s3ResponseHeaders = None, error = Some (message err), eventType = ''error''\<rparr>]"
    and "cacheWrites (externalCalls (snd (handleRequest e req))) = []"
    by (simp_all add: h(2) telemetry_append cacheWrites_append telemetry_externalCalls
          cacheWrites_externalCalls observations_getCachedResponse)
  then show ?thesis
    using h(1) by (simp add: telemetry_externalCalls cacheWrites_externalCalls
                             logData_logEntry Response_def)
qed

theorem transport_fault_gives_500_witness:
  "parseURL scenario_D_env (rq_url logo_request) =
     Inr \<lparr>hostname = ''example.com'', pathname = ''/images/logo.png''\<rparr> \<and>
   fst (getCachedResponse scenario_D_env (cacheKey ''/images/logo.png'')) = None \<and>
   fetch_origin scenario_D_env (s3Request ''/images/logo.png'') =
     Inl (Error ''connection timed out'') \<and>
   (\<exists>r. fst (handleRequest scenario_D_env logo_request) = Inr r \<and> status r = 500 \<and>
        body r = ''Internal Server Error'' \<and>
        cacheWrites (snd (handleRequest scenario_D_env logo_request)) = [] \<and>
        map (\<lambda>x. (cacheStatus (logData x), eventType (logData x), error (logData x),
                   s3ResponseHeaders (logData x)))
            (telemetry (snd (handleRequest scenario_D_env logo_request))) =
          [(''ERROR'', ''error'', Some ''connection timed out'', None)])"
proof -
  have p: "parseURL scenario_D_env (rq_url logo_request) =
             Inr \<lparr>hostname = ''example.com'', pathname = ''/images/logo.png''\<rparr>"
    by (simp add: scenario_D_env_def logo_request_def scenario_parse_logo)
  have m: "fst (getCachedResponse scenario_D_env (cacheKey ''/images/logo.png'')) = None"
    by (simp add: scenario_D_env_def scenario_lookup_none)
  have f: "fetch_origin scenario_D_env (s3Request ''/images/logo.png'') =
             Inl (Error ''connection timed out'')"
    by (simp add: scenario_D_env_def scenario_fetches)
  show ?thesis
    using transport_fault_gives_500 [OF p, of "Error ''connection timed out''"] p m f
    by simp
qed

text \<open>
  C2: for every inbound request (its URL parses, as the URL of an inbound request always
  does), \<^verbatim>\<open>handleRequest\<close> resolves to one response, never rejects, and hands exactly one
  record to the BigQuery logger, on each of its paths: cache hit, origin failure, origin
  success, and the \<^verbatim>\<open>catch\<close> block.
\<close>

theorem handleRequest_one_response_one_record:
  assumes "parseURL e (rq_url req) = Inr u"
  shows "(\<exists>r. fst (handleRequest e req) = Inr r) \<and>
         length (telemetry (snd (handleRequest e req))) = 1"
  using assms by (cases rule: telemetry_cases) simp_all

theorem handleRequest_one_response_one_record_witness:
  "parseURL cache_down_env (rq_url logo_request) =
     Inr \<lparr>hostname = ''example.com'', pathname = ''/images/logo.png''\<rparr> \<and>
   (\<exists>r. fst (handleRequest cache_down_env logo_request) = Inr r) \<and>
   length (telemetry (snd (handleRequest cache_down_env logo_request))) = 1"
proof -
  have p: "parseURL cache_down_env (rq_url logo_request) =
             Inr \<lparr>hostname = ''example.com'', pathname = ''/images/logo.png''\<rparr>"
    by (simp add: cache_down_env_def logo_request_def scenario_parse_logo)
  show ?thesis
    using handleRequest_one_response_one_record [OF p] p by simp
qed

text \<open>
  C3: every record that \<^verbatim>\<open>handleRequest\<close> sends to BigQuery pairs \<^verbatim>\<open>cacheStatus\<close> and
  \<^verbatim>\<open>eventType\<close> as follows: HIT exactly with \<^verbatim>\<open>cache_hit\<close>; ERROR exactly with
  \<^verbatim>\<open>error\<close>; MISS with an origin response of success status exactly with \<^verbatim>\<open>success\<close>;
  MISS with an origin response of another status exactly with \<^verbatim>\<open>s3_error\<close>, the literal
  that the specification names \<^verbatim>\<open>origin_error\<close>. No other \<^verbatim>\<open>cacheStatus\<close> occurs.
\<close>

theorem telemetry_pairing:
  assumes "x \<in> set (telemetry (snd (handleRequest e req)))"
  shows "(cacheStatus (logData x) = ''HIT'' \<longleftrightarrow> eventType (logData x) = ''cache_hit'') \<and>
         (cacheStatus (logData x) = ''ERROR'' \<longleftrightarrow> eventType (logData x) = ''error'') \<and>
         (cacheStatus (logData x) = ''MISS'' \<and>
            (\<exists>u r. parseURL e (rq_url req) = Inr u \<and>
                   fetch_origin e (s3Request (pathname u)) = Inr r \<and> ok r)
          \<longleftrightarrow> eventType (logData x) = ''success'') \<and>
         (cacheStatus (logData x) = ''MISS'' \<and>
            (\<exists>u r. parseURL e (rq_url req) = Inr u \<and>
                   fetch_origin e (s3Request (pathname u)) = Inr r \<and> \<not> ok r)
          \<longleftrightarrow> eventType (logData x) = ''s3_error'') \<and>
         cacheStatus (logData x) \<in> {''HIT'', ''MISS'', ''ERROR''}"
proof (cases "parseURL e (rq_url req)")
  case (Inl err)
  with assms show ?thesis
    by (simp add: handleRequest_parse_fails)
next
  case (Inr u)
  then show ?thesis
  proof (cases rule: telemetry_cases)
    case (hit c info)
    with assms show ?thesis by (simp add: logData_logEntry)
  next
    case (fault err info)
    with assms show ?thesis by (simp add: logData_logEntry)
  next
    case (clone_fault r cerr info)
    with assms show ?thesis by (simp add: logData_logEntry)
  next
    case (failure r info)
    with assms Inr show ?thesis by (simp add: logData_logEntry del: show_nat.simps)
  next
    case (success r info)
    with assms Inr show ?thesis by (simp add: logData_logEntry)
  qed
qed

theorem telemetry_pairing_witness:
  "hd (telemetry (snd (handleRequest scenario_C_env missing_request)))
     \<in> set (telemetry (snd (handleRequest scenario_C_env missing_request))) \<and>
   cacheStatus (logData (hd (telemetry (snd (handleRequest scenario_C_env missing_request)))))
     = ''MISS'' \<and>
   eventType (logData (hd (telemetry (snd (handleRequest scenario_C_env missing_request)))))
     = ''s3_error''"
proof -
  let ?T = "telemetry (snd (handleRequest scenario_C_env missing_request))"
  have p: "parseURL scenario_C_env (rq_url missing_request) =
             Inr \<lparr>hostname = ''example.com'', pathname = ''/missing.txt''\<rparr>"
    by (simp add: scenario_C_env_def missing_request_def scenario_parse_missing)
  have m: "fst (getCachedResponse scenario_C_env (cacheKey ''/missing.txt'')) = None"
    by (simp add: scenario_C_env_def scenario_lookup_none)
  have f: "fetch_origin scenario_C_env (s3Request ''/missing.txt'') = Inr origin_404"
    by (simp add: scenario_C_env_def scenario_fetches)
  have n: "\<not> ok origin_404"
    by (simp add: ok_def origin_404_def)
  from p have "hd ?T \<in> set ?T \<and> cacheStatus (logData (hd ?T)) = ''MISS''"
    using m f n by (cases rule: telemetry_cases) (simp_all add: logData_logEntry)
  then show ?thesis
    using telemetry_pairing [of "hd ?T" scenario_C_env missing_request] p f n by auto
qed

text \<open>
  C4, as the specification states it: \<^verbatim>\<open>extractRequestInfo\<close> never throws, and any header
  that is missing is \<^verbatim>\<open>null\<close> or absent in its result. The second half fails for the
  \<^verbatim>\<open>user-agent\<close> header: a request without headers gets \<^verbatim>\<open>userAgent\<close> "unknown".
\<close>

theorem missing_user_agent_counterexample:
  "headers_get (rq_headers missing_request) ''user-agent'' = None \<and>
   extractRequestInfo scenario_C_env 0 missing_request ''/missing.txt'' =
     Inr \<lparr>timestamp = ''2024-01-15T10:30:45.123Z'', ip = ''unknown'',
          domain = ''example.com'', path = ''/missing.txt'', httpMethod = ''GET'',
          userAgent = ''unknown'', referer = None, requestHeaders = Map.empty,
          url = ''https://example.com/missing.txt''\<rparr>"
  by (simp add: extractRequestInfo_def scenario_C_env_def scenario_parse_missing
        missing_request_def headers_get_def js_or_def js_or_str_def truthy_def
        entries_to_object_def scenario_env_def scenario_parseURL_def)

text \<open>
  C4, amended: for every request whose URL parses (the URL of an inbound request always
  does), \<^verbatim>\<open>extractRequestInfo\<close> returns a result and does not throw; a missing
  \<^verbatim>\<open>referer\<close> header gives \<^verbatim>\<open>referer\<close> \<^verbatim>\<open>null\<close>; a header that is missing has no entry in
  \<^verbatim>\<open>requestHeaders\<close>; a missing \<^verbatim>\<open>user-agent\<close> header gives \<^verbatim>\<open>userAgent\<close> "unknown";
  and when the three client-address headers are all missing, \<^verbatim>\<open>ip\<close> is "unknown".
\<close>

theorem extractRequestInfo_total:
  assumes "parseURL e (rq_url req) = Inr u"
  shows "\<exists>info. extractRequestInfo e k req p = Inr info \<and>
           (headers_get (rq_headers req) ''referer'' = None \<longrightarrow> referer info = None) \<and>
           (\<forall>h. headers_get (rq_headers req) h = None \<longrightarrow>
                  requestHeaders info h = None) \<and>
           (headers_get (rq_headers req) ''user-agent'' = None \<longrightarrow>
              userAgent info = ''unknown'') \<and>
           (headers_get (rq_headers req) ''fastly-client-ip'' = None \<and>
            headers_get (rq_headers req) ''x-forwarded-for'' = None \<and>
            headers_get (rq_headers req) ''x-real-ip'' = None \<longrightarrow> ip info = ''unknown'')"
  using assms
  by (simp add: extractRequestInfo_def Let_def js_or_def js_or_str_def truthy_def
        entries_to_object_absent)

theorem extractRequestInfo_total_witness:
  "parseURL scenario_C_env (rq_url missing_request) =
     Inr \<lparr>hostname = ''example.com'', pathname = ''/missing.txt''\<rparr> \<and>
   headers_get (rq_headers missing_request) ''referer'' = None \<and>
   (\<exists>info. extractRequestInfo scenario_C_env 0 missing_request ''/missing.txt'' = Inr info \<and>
      referer info = None \<and> requestHeaders info ''referer'' = None \<and>
      userAgent info = ''unknown'' \<and> ip info = ''unknown'')"
proof -
  have p: "parseURL scenario_C_env (rq_url missing_request) =
             Inr \<lparr>hostname = ''example.com'', pathname = ''/missing.txt''\<rparr>"
    by (simp add: scenario_C_env_def missing_request_def scenario_parse_missing)
  have h: "headers_get (rq_headers missing_request) x = None" for x
    by (simp add: headers_get_def missing_request_def)
  show ?thesis
    using extractRequestInfo_total [OF p, of 0 "''/missing.txt''"] p h by auto
qed

text \<open>
  C5: for every request whose cache lookup yields no object and whose origin fetch
  resolves to a response of status 400 or more, the handler sends no \<^verbatim>\<open>PUT\<close> to the
  cache and answers exactly status 404 with the body "Not Found".
\<close>

theorem origin_failure_gives_404:
  assumes "parseURL e (rq_url req) = Inr u"
      and "fst (getCachedResponse e (cacheKey (pathname u))) = None"
      and "fetch_origin e (s3Request (pathname u)) = Inr r"
      and "400 \<le> status r"
  shows "\<exists>resp. fst (handleRequest e req) = Inr resp \<and> status resp = 404 \<and>
                body resp = ''Not Found'' \<and>
                cacheWrites (snd (handleRequest e req)) = []"
proof -
  obtain i0 where i0: "extractRequestInfo e 0 req (pathname u) = Inr i0"
    using extractRequestInfo_Inr [OF assms(1)] by blast
  from assms(4) have n: "\<not> ok r"
    by (simp add: ok_def)
  note h = handleRequest_origin_not_ok [OF assms(1) i0 assms(2,3) n]
  have "cacheWrites (externalCalls (snd (handleRequest e req))) = []"
    by (simp add: h(2) cacheWrites_append cacheWrites_externalCalls
          observations_getCachedResponse del: show_nat.simps)
  then show ?thesis
    using h(1) by (simp add: cacheWrites_externalCalls Response_def)
qed

theorem origin_failure_gives_404_witness:
  "parseURL scenario_C_env (rq_url missing_request) =
     Inr \<lparr>hostname = ''example.com'', pathname = ''/missing.txt''\<rparr> \<and>
   fst (getCachedResponse scenario_C_env (cacheKey ''/missing.txt'')) = None \<and>
   fetch_origin scenario_C_env (s3Request ''/missing.txt'') = Inr origin_404 \<and>
   400 \<le> status origin_404 \<and>
   (\<exists>resp. fst (handleRequest scenario_C_env missing_request) = Inr resp \<and>
      status resp = 404 \<and> body resp = ''Not Found'' \<and>
      cacheWrites (snd (handleRequest scenario_C_env missing_request)) = [])"
proof -
  have p: "parseURL scenario_C_env (rq_url missing_request) =
             Inr \<lparr>hostname = ''example.com'', pathname = ''/missing.txt''\<rparr>"
    by (simp add: scenario_C_env_def missing_request_def scenario_parse_missing)
  have m: "fst (getCachedResponse scenario_C_env (cacheKey ''/missing.txt'')) = None"
    by (simp add: scenario_C_env_def scenario_lookup_none)
  have f: "fetch_origin scenario_C_env (s3Request ''/missing.txt'') = Inr origin_404"
    by (simp add: scenario_C_env_def scenario_fetches)
  have s: "400 \<le> status origin_404"
    by (simp add: origin_404_def)
  show ?thesis
    using origin_failure_gives_404 [OF p, of origin_404] p m f s by simp
qed

text \<open>
  C6: when the lookup in the cache fails, because the \<^verbatim>\<open>CacheOverride\<close> of the lookup
  cannot be built or because the \<^verbatim>\<open>fetch\<close> throws, \<^verbatim>\<open>getCachedResponse\<close> returns
  \<^verbatim>\<open>null\<close>, and \<^verbatim>\<open>handleRequest\<close> goes on exactly as when the lookup is sent and the
  cache answers that it does not hold the key (any status but 200): it gives the same
  response and makes the same calls to the origin, the same cache writes and the same
  record for BigQuery. The response is then decided after the lookup: the fixed 404 when
  the origin answers a status that is no success; on a success status the origin's
  response where the runtime clones it, and the 500 of the \<^verbatim>\<open>catch\<close> block where
  \<^verbatim>\<open>s3Response.clone()\<close> throws.
\<close>

theorem cache_read_fault_is_miss:
  assumes "parseURL e (rq_url req) = Inr u"
      and "new_CacheOverride e ''miss'' = Some err \<or>
           fetch_cache_get e (''https://cache/'' @ cacheKey (pathname u)) = Inl err"
      and "status m \<noteq> 200"
  shows "fst (getCachedResponse e (cacheKey (pathname u))) = None \<and>
         fst (handleRequest e req) =
           fst (handleRequest
                  (e\<lparr>new_CacheOverride := (new_CacheOverride e)(''miss'' := None),
                     fetch_cache_get := \<lambda>x. Inr m\<rparr>) req) \<and>
         callsAfterLookup (snd (handleRequest e req)) =
           callsAfterLookup (snd (handleRequest
                  (e\<lparr>new_CacheOverride := (new_CacheOverride e)(''miss'' := None),
                     fetch_cache_get := \<lambda>x. Inr m\<rparr>) req)) \<and>
         (\<forall>r. fetch_origin e (s3Request (pathname u)) = Inr r \<longrightarrow> \<not> ok r \<longrightarrow>
              fst (handleRequest e req) = Inr (Response ''Not Found'' 404)) \<and>
         (\<forall>r. fetch_origin e (s3Request (pathname u)) = Inr r \<longrightarrow> ok r \<longrightarrow>
              fst (handleRequest e req) =
                (case Response_clone e of
                   None \<Rightarrow> Inr r
                 | Some cerr \<Rightarrow> Inr (Response ''Internal Server Error'' 500)))"
proof -
  let ?e = "e\<lparr>new_CacheOverride := (new_CacheOverride e)(''miss'' := None),
               fetch_cache_get := \<lambda>x. Inr m\<rparr>"
  obtain i0 where i0: "extractRequestInfo e 0 req (pathname u) = Inr i0"
    using extractRequestInfo_Inr [OF assms(1)] by blast
  obtain i1 where i1: "extractRequestInfo e 1 req (pathname u) = Inr i1"
    using extractRequestInfo_Inr [OF assms(1)] by blast
  have p': "parseURL ?e (rq_url req) = Inr u"
    using assms(1) by simp
  have i0': "extractRequestInfo ?e 0 req (pathname u) = Inr i0"
    and i1': "extractRequestInfo ?e 1 req (pathname u) = Inr i1"
    using i0 i1 by (simp_all add: cache_lookup_update_frame)
  have none: "fst (getCachedResponse e (cacheKey (pathname u))) = None"
    using assms(2) getCachedResponse_constructor_throws getCachedResponse_throws by blast
  have none': "fst (getCachedResponse ?e (cacheKey (pathname u))) = None"
    by (rule getCachedResponse_not_200 [where m = m]) (simp_all add: assms(3))
  have cal: "callsAfterLookup (snd (handleRequest x req)) = callsAfterLookup l"
    if "externalCalls (snd (handleRequest x req)) = l" for x l
    using that callsAfterLookup_externalCalls [of "snd (handleRequest x req)"] by simp
  note simps = callsAfterLookup_append callsAfterLookup_externalCalls
    observations_getCachedResponse cache_lookup_update_frame
  show ?thesis
  proof (cases "fetch_origin e (s3Request (pathname u))")
    case (Inl x)
    then have f': "fetch_origin ?e (s3Request (pathname u)) = Inl x"
      by simp
    show ?thesis
      using handleRequest_origin_throws(1) [OF assms(1) i0 i1 none Inl]
        handleRequest_origin_throws(1) [OF p' i0' i1' none' f']
        cal [OF handleRequest_origin_throws(2) [OF assms(1) i0 i1 none Inl]]
        cal [OF handleRequest_origin_throws(2) [OF p' i0' i1' none' f']] none Inl
      by (simp add: simps)
  next
    case (Inr r)
    then have f': "fetch_origin ?e (s3Request (pathname u)) = Inr r"
      by simp
    show ?thesis
    proof (cases "ok r")
      case False
      show ?thesis
        using handleRequest_origin_not_ok(1) [OF assms(1) i0 none Inr False]
          handleRequest_origin_not_ok(1) [OF p' i0' none' f' False]
          cal [OF handleRequest_origin_not_ok(2) [OF assms(1) i0 none Inr False]]
          cal [OF handleRequest_origin_not_ok(2) [OF p' i0' none' f' False]]
          none Inr False
        by (simp add: simps del: show_nat.simps)
    next
      case True
      show ?thesis
      proof (cases "Response_clone e")
        case (Some cerr)
        then have c': "Response_clone ?e = Some cerr"
          by simp
        show ?thesis
          using handleRequest_clone_throws(1) [OF assms(1) i0 i1 none Inr True Some]
            handleRequest_clone_throws(1) [OF p' i0' i1' none' f' True c']
            cal [OF handleRequest_clone_throws(2) [OF assms(1) i0 i1 none Inr True Some]]
            cal [OF handleRequest_clone_throws(2) [OF p' i0' i1' none' f' True c']]
            none Inr True Some
          by (simp add: simps)
      next
        case None': None
        then have c': "Response_clone ?e = None"
          by simp
        show ?thesis
          using handleRequest_origin_ok(1) [OF assms(1) i0 none Inr True None']
            handleRequest_origin_ok(1) [OF p' i0' none' f' True c']
            cal [OF handleRequest_origin_ok(2) [OF assms(1) i0 none Inr True None']]
            cal [OF handleRequest_origin_ok(2) [OF p' i0' none' f' True c']]
            none Inr True None'
          by (simp add: simps)
      qed
    qed
  qed
qed

theorem cache_read_fault_is_miss_witness:
  "parseURL cache_fault_env (rq_url missing_request) =
     Inr \<lparr>hostname = ''example.com'', pathname = ''/missing.txt''\<rparr> \<and>
   new_CacheOverride cache_fault_env ''miss'' =
     Some (Error ''CacheOverride: mode must be none, pass or override'') \<and>
   fetch_cache_get (with_lookup_and_clone cache_fault_env)
     (''https://cache/'' @ cacheKey ''/missing.txt'') = Inl (Error ''cache unreachable'') \<and>
   status cache_absent \<noteq> 200 \<and>
   fst (getCachedResponse cache_fault_env (cacheKey ''/missing.txt'')) = None \<and>
   fst (handleRequest cache_fault_env missing_request) = Inr (Response ''Not Found'' 404) \<and>
   fst (handleRequest
          (cache_fault_env
             \<lparr>new_CacheOverride := (new_CacheOverride cache_fault_env)(''miss'' := None),
              fetch_cache_get := \<lambda>x. Inr cache_absent\<rparr>) missing_request) =
     Inr (Response ''Not Found'' 404) \<and>
   callsAfterLookup (snd (handleRequest cache_fault_env missing_request)) =
     callsAfterLookup (snd (handleRequest
          (cache_fault_env
             \<lparr>new_CacheOverride := (new_CacheOverride cache_fault_env)(''miss'' := None),
              fetch_cache_get := \<lambda>x. Inr cache_absent\<rparr>) missing_request)) \<and>
   fst (getCachedResponse (with_lookup_and_clone cache_fault_env) (cacheKey ''/missing.txt'')) =
     None \<and>
   fst (handleRequest (with_lookup_and_clone cache_fault_env) missing_request) =
     Inr (Response ''Not Found'' 404)"
proof -
  let ?w = "with_lookup_and_clone cache_fault_env"
  let ?U = "\<lparr>hostname = ''example.com'', pathname = ''/missing.txt''\<rparr>"
  have p: "parseURL cache_fault_env (rq_url missing_request) = Inr ?U"
    by (simp add: cache_fault_env_def missing_request_def scenario_parse_missing)
  have c: "new_CacheOverride cache_fault_env ''miss'' =
             Some (Error ''CacheOverride: mode must be none, pass or override'')"
    by (simp add: cache_fault_env_def scenario_runtime)
  have s: "status cache_absent \<noteq> 200"
    by (simp add: cache_absent_def)
  have f: "fetch_origin cache_fault_env (s3Request (pathname ?U)) = Inr origin_404"
    by (simp add: cache_fault_env_def scenario_fetches)
  have n: "\<not> ok origin_404"
    by (simp add: ok_def origin_404_def)
  have p2: "parseURL ?w (rq_url missing_request) = Inr ?U"
    using p by (simp add: with_lookup_and_clone_frame)
  have c2: "fetch_cache_get ?w (''https://cache/'' @ cacheKey ''/missing.txt'') =
              Inl (Error ''cache unreachable'')"
    by (simp add: with_lookup_and_clone_frame cache_fault_env_def scenario_fetches)
  have f2: "fetch_origin ?w (s3Request (pathname ?U)) = Inr origin_404"
    using f by (simp add: with_lookup_and_clone_frame)
  have h1: "new_CacheOverride cache_fault_env ''miss'' =
              Some (Error ''CacheOverride: mode must be none, pass or override'') \<or>
            fetch_cache_get cache_fault_env (''https://cache/'' @ cacheKey (pathname ?U)) =
              Inl (Error ''CacheOverride: mode must be none, pass or override'')"
    using c by (rule disjI1)
  have h2: "new_CacheOverride ?w ''miss'' = Some (Error ''cache unreachable'') \<or>
            fetch_cache_get ?w (''https://cache/'' @ cacheKey (pathname ?U)) =
              Inl (Error ''cache unreachable'')"
    using c2 by simp
  note T1 = cache_read_fault_is_miss [OF p h1 s]
  note T2 = cache_read_fault_is_miss [OF p2 h2 s]
  have r1: "fst (getCachedResponse cache_fault_env (cacheKey ''/missing.txt'')) = None"
    using T1 [THEN conjunct1] by simp
  have r2: "fst (handleRequest cache_fault_env missing_request) =
              Inr (Response ''Not Found'' 404)"
    by (rule T1 [THEN conjunct2, THEN conjunct2, THEN conjunct2, THEN conjunct1,
                 rule_format, OF f n])
  have r3: "fst (handleRequest
          (cache_fault_env
             \<lparr>new_CacheOverride := (new_CacheOverride cache_fault_env)(''miss'' := None),
              fetch_cache_get := \<lambda>x. Inr cache_absent\<rparr>) missing_request) =
     Inr (Response ''Not Found'' 404)"
    by (simp only: T1 [THEN conjunct2, THEN conjunct1, symmetric] r2)
  have r4: "callsAfterLookup (snd (handleRequest cache_fault_env missing_request)) =
     callsAfterLookup (snd (handleRequest
          (cache_fault_env
             \<lparr>new_CacheOverride := (new_CacheOverride cache_fault_env)(''miss'' := None),
              fetch_cache_get := \<lambda>x. Inr cache_absent\<rparr>) missing_request))"
    by (rule T1 [THEN conjunct2, THEN conjunct2, THEN conjunct1])
  have r5: "fst (getCachedResponse ?w (cacheKey ''/missing.txt'')) = None"
    using T2 [THEN conjunct1] by simp
  have r6: "fst (handleRequest ?w missing_request) = Inr (Response ''Not Found'' 404)"
    by (rule T2 [THEN conjunct2, THEN conjunct2, THEN conjunct2, THEN conjunct1,
                 rule_format, OF f2 n])
  show ?thesis
    by (intro conjI) (rule p c c2 s r1 r2 r3 r4 r5 r6)+
qed

text \<open>
  C7: for every request whose cache lookup yields no object and whose origin fetch
  resolves to a response of success status, the response of the handler does not depend
  on the write to the cache: it is the same when the \<^verbatim>\<open>PUT\<close> throws and when it succeeds,
  and whatever the \<^verbatim>\<open>CacheOverride\<close> of the write does. It is the origin's response, with
  its status, headers and body, where the runtime clones the response; where
  \<^verbatim>\<open>s3Response.clone()\<close> throws it is the 500 of the \<^verbatim>\<open>catch\<close> block, given before any
  write to the cache is attempted.
\<close>

theorem cache_write_fault_keeps_response:
  assumes "parseURL e (rq_url req) = Inr u"
      and "fst (getCachedResponse e (cacheKey (pathname u))) = None"
      and "fetch_origin e (s3Request (pathname u)) = Inr r"
      and "ok r"
  shows "fst (handleRequest (e\<lparr>fetch_cache_put := \<lambda>x. Some err\<rparr>) req) =
           fst (handleRequest (e\<lparr>fetch_cache_put := \<lambda>x. None\<rparr>) req) \<and>
         fst (handleRequest
                (e\<lparr>new_CacheOverride := (new_CacheOverride e)(''override'' := c),
                   fetch_cache_put := w\<rparr>) req) =
           (case Response_clone e of
              None \<Rightarrow> Inr r
            | Some cerr \<Rightarrow> Inr (Response ''Internal Server Error'' 500))"
proof -
  have any: "fst (handleRequest
                (e\<lparr>new_CacheOverride := (new_CacheOverride e)(''override'' := k),
                   fetch_cache_put := v\<rparr>) req) =
           (case Response_clone e of
              None \<Rightarrow> Inr r
            | Some cerr \<Rightarrow> Inr (Response ''Internal Server Error'' 500))" for k v
  proof -
    let ?e = "e\<lparr>new_CacheOverride := (new_CacheOverride e)(''override'' := k),
                 fetch_cache_put := v\<rparr>"
    have p: "parseURL ?e (rq_url req) = Inr u"
      using assms(1) by simp
    obtain i0 where i0: "extractRequestInfo ?e 0 req (pathname u) = Inr i0"
      using extractRequestInfo_Inr [OF p] by blast
    obtain i1 where i1: "extractRequestInfo ?e 1 req (pathname u) = Inr i1"
      using extractRequestInfo_Inr [OF p] by blast
    have "getCachedResponse ?e (cacheKey (pathname u)) =
            getCachedResponse e (cacheKey (pathname u))"
      by (simp add: getCachedResponse_def Let_def cong: sum.case_cong option.case_cong)
    with assms(2) have m: "fst (getCachedResponse ?e (cacheKey (pathname u))) = None"
      by simp
    have f: "fetch_origin ?e (s3Request (pathname u)) = Inr r"
      using assms(3) by simp
    show ?thesis
    proof (cases "Response_clone e")
      case None
      then have "Response_clone ?e = None" by simp
      from handleRequest_origin_ok(1) [OF p i0 m f assms(4) this] None
      show ?thesis by simp
    next
      case (Some cerr)
      then have "Response_clone ?e = Some cerr" by simp
      from handleRequest_clone_throws(1) [OF p i0 i1 m f assms(4) this] Some
      show ?thesis by simp
    qed
  qed
  have same: "e\<lparr>new_CacheOverride := (new_CacheOverride e)
                    (''override'' := new_CacheOverride e ''override''),
                 fetch_cache_put := v\<rparr> = e\<lparr>fetch_cache_put := v\<rparr>" for v
    by simp
  from any [where k = "new_CacheOverride e ''override''" and v = "\<lambda>x. Some err"]
       any [where k = "new_CacheOverride e ''override''" and v = "\<lambda>x. None"]
       any [where k = c and v = w]
  show ?thesis
    by (simp only: same)
qed

theorem cache_write_fault_keeps_response_witness:
  "parseURL scenario_A_env (rq_url logo_request) =
     Inr \<lparr>hostname = ''example.com'', pathname = ''/images/logo.png''\<rparr> \<and>
   fst (getCachedResponse scenario_A_env (cacheKey ''/images/logo.png'')) = None \<and>
   fetch_origin scenario_A_env (s3Request ''/images/logo.png'') = Inr logo_response \<and>
   ok logo_response \<and>
   Response_clone scenario_A_env = Some (Error ''s3Response.clone is not a function'') \<and>
   fst (handleRequest (scenario_A_env\<lparr>fetch_cache_put := \<lambda>x. Some (Error ''write failed'')\<rparr>)
          logo_request) =
     Inr (Response ''Internal Server Error'' 500) \<and>
   fst (handleRequest (scenario_A_env\<lparr>fetch_cache_put := \<lambda>x. None\<rparr>) logo_request) =
     Inr (Response ''Internal Server Error'' 500) \<and>
   fst (getCachedResponse (with_lookup_and_clone scenario_A_env)
          (cacheKey ''/images/logo.png'')) = None \<and>
   Response_clone (with_lookup_and_clone scenario_A_env) = None \<and>
   fst (handleRequest
          (with_lookup_and_clone scenario_A_env
             \<lparr>fetch_cache_put := \<lambda>x. Some (Error ''write failed'')\<rparr>) logo_request) =
     Inr \<lparr>status = 200, rs_headers = [(''content-type'', ''image/png'')], body = ''B''\<rparr> \<and>
   fst (handleRequest
          (with_lookup_and_clone scenario_A_env\<lparr>fetch_cache_put := \<lambda>x. None\<rparr>)
          logo_request) =
     Inr \<lparr>status = 200, rs_headers = [(''content-type'', ''image/png'')], body = ''B''\<rparr>"
proof -
  let ?w = "with_lookup_and_clone scenario_A_env"
  let ?U = "\<lparr>hostname = ''example.com'', pathname = ''/images/logo.png''\<rparr>"
  have p: "parseURL scenario_A_env (rq_url logo_request) = Inr ?U"
    by (simp add: scenario_A_env_def logo_request_def scenario_parse_logo)
  have m: "fst (getCachedResponse scenario_A_env (cacheKey ''/images/logo.png'')) = None"
    by (simp add: scenario_A_env_def scenario_lookup_none)
  have f: "fetch_origin scenario_A_env (s3Request ''/images/logo.png'') = Inr logo_response"
    by (simp add: scenario_A_env_def scenario_fetches)
  have k: "ok logo_response"
    by (simp add: ok_def logo_response_def)
  have c: "Response_clone scenario_A_env = Some (Error ''s3Response.clone is not a function'')"
    by (simp add: scenario_A_env_def scenario_runtime)
  have p2: "parseURL ?w (rq_url logo_request) = Inr ?U"
    using p by (simp add: with_lookup_and_clone_frame)
  have m2: "fst (getCachedResponse ?w (cacheKey ''/images/logo.png'')) = None"
    by (rule getCachedResponse_not_200 [where m = cache_absent])
       (simp_all add: with_lookup_and_clone_frame scenario_A_env_def scenario_fetches
          cache_absent_def)
  have f2: "fetch_origin ?w (s3Request ''/images/logo.png'') = Inr logo_response"
    using f by (simp add: with_lookup_and_clone_frame)
  have c2: "Response_clone ?w = None"
    by (simp add: with_lookup_and_clone_frame)
  have mU: "fst (getCachedResponse scenario_A_env (cacheKey (pathname ?U))) = None"
    using m by simp
  have fU: "fetch_origin scenario_A_env (s3Request (pathname ?U)) = Inr logo_response"
    using f by simp
  have mU2: "fst (getCachedResponse ?w (cacheKey (pathname ?U))) = None"
    using m2 by simp
  have fU2: "fetch_origin ?w (s3Request (pathname ?U)) = Inr logo_response"
    using f2 by simp
  have a1: "fst (handleRequest
                   (scenario_A_env\<lparr>fetch_cache_put := \<lambda>x. Some (Error ''write failed'')\<rparr>)
                   logo_request) = Inr (Response ''Internal Server Error'' 500)"
    using cache_write_fault_keeps_response
            [where c = "new_CacheOverride scenario_A_env ''override''"
               and w = "\<lambda>x. Some (Error ''write failed'')", OF p mU fU k, THEN conjunct2] c
    by simp
  have a2: "fst (handleRequest (scenario_A_env\<lparr>fetch_cache_put := \<lambda>x. None\<rparr>) logo_request) =
              Inr (Response ''Internal Server Error'' 500)"
    using cache_write_fault_keeps_response
            [where c = "new_CacheOverride scenario_A_env ''override''"
               and w = "\<lambda>x. None", OF p mU fU k, THEN conjunct2] c
    by simp
  have b1: "fst (handleRequest
          (with_lookup_and_clone scenario_A_env
             \<lparr>fetch_cache_put := \<lambda>x. Some (Error ''write failed'')\<rparr>) logo_request) =
     Inr \<lparr>status = 200, rs_headers = [(''content-type'', ''image/png'')], body = ''B''\<rparr>"
    using cache_write_fault_keeps_response
            [where c = "new_CacheOverride ?w ''override''"
               and w = "\<lambda>x. Some (Error ''write failed'')", OF p2 mU2 fU2 k,
             THEN conjunct2] c2
    by (simp add: logo_response_def)
  have b2: "fst (handleRequest
          (with_lookup_and_clone scenario_A_env\<lparr>fetch_cache_put := \<lambda>x. None\<rparr>)
          logo_request) =
     Inr \<lparr>status = 200, rs_headers = [(''content-type'', ''image/png'')], body = ''B''\<rparr>"
    using cache_write_fault_keeps_response
            [where c = "new_CacheOverride ?w ''override''" and w = "\<lambda>x. None",
             OF p2 mU2 fU2 k, THEN conjunct2] c2
    by (simp add: logo_response_def)
  show ?thesis
    by (intro conjI) (rule p m f k c a1 a2 m2 c2 b1 b2)+
qed

text \<open>
  C8: the cache key of a path \<open>P\<close> is the string "s3-object:" followed by \<open>P\<close> as it
  is; the same path gives the same key and two different paths give two different keys.
  For the path of the request's URL it is the key of every call that \<^verbatim>\<open>handleRequest\<close>
  makes to the cache: each lookup and each write goes to \<^verbatim>\<open>https://cache/\<close> followed by
  that key, and where the runtime builds the \<^verbatim>\<open>CacheOverride\<close> of the lookup, exactly one
  lookup is sent.
\<close>

theorem cacheKey_literal_injective:
  "cacheKey P = ''s3-object:'' @ P \<and>
   (cacheKey P = cacheKey Q \<longleftrightarrow> P = Q) \<and>
   (parseURL e (rq_url req) = Inr u \<longrightarrow>
      (\<forall>x \<in> set (cacheReads (snd (handleRequest e req))).
          x = ''https://cache/'' @ ''s3-object:'' @ pathname u) \<and>
      (\<forall>w \<in> set (cacheWrites (snd (handleRequest e req))).
          cr_input w = ''https://cache/'' @ ''s3-object:'' @ pathname u) \<and>
      (new_CacheOverride e ''miss'' = None \<longrightarrow>
         cacheReads (snd (handleRequest e req)) =
           [''https://cache/'' @ ''s3-object:'' @ pathname u]))"
  using cache_calls_of_handleRequest [of e req u]
  by (simp add: cacheKey_def)

theorem cacheKey_literal_injective_witness:
  "cacheKey ''/images/logo.png'' = ''s3-object:/images/logo.png'' \<and>
   cacheKey ''/images/logo.png'' \<noteq> cacheKey ''/images/logo.png/'' \<and>
   parseURL (with_lookup_and_clone scenario_A_env) (rq_url logo_request) =
     Inr \<lparr>hostname = ''example.com'', pathname = ''/images/logo.png''\<rparr> \<and>
   new_CacheOverride (with_lookup_and_clone scenario_A_env) ''miss'' = None \<and>
   cacheReads (snd (handleRequest (with_lookup_and_clone scenario_A_env) logo_request)) =
     [''https://cache/s3-object:/images/logo.png''] \<and>
   map cr_input
     (cacheWrites (snd (handleRequest (with_lookup_and_clone scenario_A_env) logo_request))) =
     [''https://cache/s3-object:/images/logo.png''] \<and>
   cacheReads (snd (handleRequest scenario_A_env logo_request)) = [] \<and>
   cacheWrites (snd (handleRequest scenario_A_env logo_request)) = []"
proof -
  let ?w = "with_lookup_and_clone scenario_A_env"
  let ?U = "\<lparr>hostname = ''example.com'', pathname = ''/images/logo.png''\<rparr>"
  have p: "parseURL scenario_A_env (rq_url logo_request) = Inr ?U"
    by (simp add: scenario_A_env_def logo_request_def scenario_parse_logo)
  have p2: "parseURL ?w (rq_url logo_request) = Inr ?U"
    using p by (simp add: with_lookup_and_clone_frame)
  have c2: "new_CacheOverride ?w ''miss'' = None" "new_CacheOverride ?w ''override'' = None"
      "Response_clone ?w = None"
    by (simp_all add: with_lookup_and_clone_frame)
  have m2: "fst (getCachedResponse ?w (cacheKey (pathname ?U))) = None"
    by (rule getCachedResponse_not_200 [where m = cache_absent])
       (simp_all add: with_lookup_and_clone_frame scenario_A_env_def scenario_fetches
          cache_absent_def)
  have f2: "fetch_origin ?w (s3Request (pathname ?U)) = Inr logo_response"
    by (simp add: with_lookup_and_clone_frame scenario_A_env_def scenario_fetches)
  have k: "ok logo_response"
    by (simp add: ok_def logo_response_def)
  obtain i0 where i0: "extractRequestInfo ?w 0 logo_request (pathname ?U) = Inr i0"
    using extractRequestInfo_Inr [OF p2] by blast
  have "length (cacheWrites (externalCalls (snd (handleRequest ?w logo_request)))) = 1"
    by (simp add: handleRequest_origin_ok(2) [OF p2 i0 m2 f2 k c2(3)]
          externalCalls_cacheResponse externalCalls_getCachedResponse c2 cacheWrites_append)
  then obtain w where w: "cacheWrites (snd (handleRequest ?w logo_request)) = [w]"
    by (cases "cacheWrites (snd (handleRequest ?w logo_request))")
       (simp_all add: cacheWrites_externalCalls)
  have m: "fst (getCachedResponse scenario_A_env (cacheKey (pathname ?U))) = None"
    by (simp add: scenario_A_env_def scenario_lookup_none)
  have f: "fetch_origin scenario_A_env (s3Request (pathname ?U)) = Inr logo_response"
    by (simp add: scenario_A_env_def scenario_fetches)
  have c: "new_CacheOverride scenario_A_env ''miss'' =
             Some (Error ''CacheOverride: mode must be none, pass or override'')"
      "Response_clone scenario_A_env = Some (Error ''s3Response.clone is not a function'')"
    by (simp_all add: scenario_A_env_def scenario_runtime)
  obtain j0 where j0: "extractRequestInfo scenario_A_env 0 logo_request (pathname ?U) = Inr j0"
    using extractRequestInfo_Inr [OF p] by blast
  obtain j1 where j1: "extractRequestInfo scenario_A_env 1 logo_request (pathname ?U) = Inr j1"
    using extractRequestInfo_Inr [OF p] by blast
  note x = handleRequest_clone_throws(2) [OF p j0 j1 m f k c(2)]
  have "cacheWrites (externalCalls (snd (handleRequest scenario_A_env logo_request))) = []"
    and "cacheReads (externalCalls (snd (handleRequest scenario_A_env logo_request))) = []"
    by (simp_all add: x externalCalls_getCachedResponse c(1))
  then have a1: "cacheWrites (snd (handleRequest scenario_A_env logo_request)) = []"
    and a2: "cacheReads (snd (handleRequest scenario_A_env logo_request)) = []"
    by (simp_all add: cacheWrites_externalCalls cacheReads_externalCalls)
  note T = cacheKey_literal_injective
             [of "''/images/logo.png''" "''/images/logo.png/''" ?w logo_request ?U]
  note T3 = T [THEN conjunct2, THEN conjunct2, THEN mp, OF p2]
  have k1: "cacheKey ''/images/logo.png'' = ''s3-object:/images/logo.png''"
    using T [THEN conjunct1] by simp
  have k2: "cacheKey ''/images/logo.png'' \<noteq> cacheKey ''/images/logo.png/''"
    using T [THEN conjunct2, THEN conjunct1] by simp
  have k5: "cacheReads (snd (handleRequest ?w logo_request)) =
              [''https://cache/s3-object:/images/logo.png'']"
    using T3 [THEN conjunct2, THEN conjunct2, THEN mp, OF c2(1)] by simp
  have k6: "map cr_input (cacheWrites (snd (handleRequest ?w logo_request))) =
              [''https://cache/s3-object:/images/logo.png'']"
    using T3 [THEN conjunct2, THEN conjunct1] w by simp
  show ?thesis
    by (intro conjI) (rule k1 k2 p2 c2(1) k5 k6 a2 a1)+
qed

text \<open>
  C9, as the specification states it: the client address recorded is the value of the
  \<^verbatim>\<open>fastly-client-ip\<close> header if that header is present, otherwise of
  \<^verbatim>\<open>x-forwarded-for\<close> if present, otherwise of \<^verbatim>\<open>x-real-ip\<close> if present, otherwise
  "unknown". The code chains the lookups with \<^verbatim>\<open>||\<close>, which also passes over a header
  that is present with the empty string as its value: here \<^verbatim>\<open>fastly-client-ip\<close> is
  present and empty, and the address recorded is that of \<^verbatim>\<open>x-forwarded-for\<close>.
\<close>

theorem empty_client_ip_header_counterexample:
  "headers_get (rq_headers proxied_request) ''fastly-client-ip'' = Some '''' \<and>
   map_sum id ip (extractRequestInfo scenario_A_env 0 proxied_request ''/images/logo.png'') =
     Inr ''203.0.113.7'' \<and>
   map_sum id ip (extractRequestInfo scenario_A_env 0 proxied_request ''/images/logo.png'') \<noteq>
     Inr ''''"
  by (simp add: extractRequestInfo_def scenario_A_env_def scenario_parse_logo
        proxied_request_def headers_get_def js_or_def js_or_str_def truthy_def Let_def)

text \<open>
  C9, amended: the client address recorded is the value of the first of the headers
  \<^verbatim>\<open>fastly-client-ip\<close>, \<^verbatim>\<open>x-forwarded-for\<close>, \<^verbatim>\<open>x-real-ip\<close>, in this order, that is
  present with a value other than the empty string, and the literal "unknown" when there
  is none; the value is taken as it is, with no check that it is an address.
\<close>

theorem clientIP_first_nonempty:
  assumes "extractRequestInfo e k req p = Inr info"
  shows "ip info =
           first_nonempty
             [headers_get (rq_headers req) ''fastly-client-ip'',
              headers_get (rq_headers req) ''x-forwarded-for'',
              headers_get (rq_headers req) ''x-real-ip'']
             ''unknown''"
proof (cases "parseURL e (rq_url req)")
  case (Inl err)
  with assms show ?thesis
    by (simp add: extractRequestInfo_def)
next
  case (Inr u)
  let ?a = "headers_get (rq_headers req) ''fastly-client-ip''"
  let ?b = "headers_get (rq_headers req) ''x-forwarded-for''"
  let ?c = "headers_get (rq_headers req) ''x-real-ip''"
  from assms Inr have "ip info = js_or_str (js_or (js_or ?a ?b) ?c) ''unknown''"
    by (auto simp add: extractRequestInfo_def Let_def)
  also have "\<dots> = first_nonempty [?a, ?b, ?c] ''unknown''"
    by (cases ?a; cases ?b; cases ?c) (simp_all add: js_or_def js_or_str_def truthy_def)
  finally show ?thesis .
qed

theorem clientIP_first_nonempty_witness:
  "extractRequestInfo scenario_A_env 0 proxied_request ''/images/logo.png'' =
     Inr \<lparr>timestamp = ''2024-01-15T10:30:45.123Z'', ip = ''203.0.113.7'',
          domain = ''example.com'', path = ''/images/logo.png'', httpMethod = ''GET'',
          userAgent = ''unknown'', referer = None,
          requestHeaders =
            [''fastly-client-ip'' \<mapsto> '''', ''x-forwarded-for'' \<mapsto> ''203.0.113.7''],
          url = ''https://example.com/images/logo.png''\<rparr> \<and>
   first_nonempty
     [headers_get (rq_headers proxied_request) ''fastly-client-ip'',
      headers_get (rq_headers proxied_request) ''x-forwarded-for'',
      headers_get (rq_headers proxied_request) ''x-real-ip'']
     ''unknown'' = ''203.0.113.7''"
proof -
  have x: "extractRequestInfo scenario_A_env 0 proxied_request ''/images/logo.png'' =
     Inr \<lparr>timestamp = ''2024-01-15T10:30:45.123Z'', ip = ''203.0.113.7'',
          domain = ''example.com'', path = ''/images/logo.png'', httpMethod = ''GET'',
          userAgent = ''unknown'', referer = None,
          requestHeaders =
            [''fastly-client-ip'' \<mapsto> '''', ''x-forwarded-for'' \<mapsto> ''203.0.113.7''],
          url = ''https://example.com/images/logo.png''\<rparr>"
    by (simp add: extractRequestInfo_def scenario_A_env_def scenario_parse_logo
          proxied_request_def headers_get_def js_or_def js_or_str_def truthy_def Let_def
          entries_to_object_def scenario_env_def scenario_parseURL_def)
  show ?thesis
    using clientIP_first_nonempty [OF x] x by simp
qed

text \<open>
  C10: \<^verbatim>\<open>fetchFromS3\<close> removes one leading slash from the path and no more. So for every
  path \<open>p\<close> that does not begin with a slash, \<open>p\<close> and \<open>/p\<close> give the same
  origin URL and the same request to the origin, while their cache keys differ; and of
  two leading slashes the second stays.
\<close>

theorem origin_key_strips_one_slash:
  assumes "take 1 p \<noteq> ''/''"
  shows "s3Url (''/'' @ p) = s3Url p \<and>
         fetchFromS3 e (''/'' @ p) = fetchFromS3 e p \<and>
         ''/'' @ p \<noteq> p \<and>
         cacheKey (''/'' @ p) \<noteq> cacheKey p \<and>
         objectKey (''//'' @ p) = ''/'' @ p"
proof -
  from assms have k: "objectKey (''/'' @ p) = objectKey p"
    by (simp add: objectKey_def)
  then have u: "s3Url (''/'' @ p) = s3Url p"
    by (simp add: s3Url_def)
  then have "fetchFromS3 e (''/'' @ p) = fetchFromS3 e p"
    by (simp add: fetchFromS3_def s3Request_def)
  moreover have "cacheKey (''/'' @ p) \<noteq> cacheKey p"
    by (simp add: cacheKey_def)
  moreover have "objectKey (''//'' @ p) = ''/'' @ p"
    by (simp add: objectKey_def)
  ultimately show ?thesis
    using u by simp
qed

theorem origin_key_strips_one_slash_witness:
  "take 1 ''images/logo.png'' \<noteq> ''/'' \<and>
   s3Url ''/images/logo.png'' =
     ''https://your-bucket-name.s3.us-east-1.amazonaws.com/images/logo.png'' \<and>
   s3Url ''images/logo.png'' =
     ''https://your-bucket-name.s3.us-east-1.amazonaws.com/images/logo.png'' \<and>
   cacheKey ''/images/logo.png'' \<noteq> cacheKey ''images/logo.png'' \<and>
   objectKey ''//images/logo.png'' = ''/images/logo.png''"
proof -
  have h: "take 1 ''images/logo.png'' \<noteq> ''/''"
    by simp
  have u: "s3Url ''images/logo.png'' =
             ''https://your-bucket-name.s3.us-east-1.amazonaws.com/images/logo.png''"
    by (simp add: s3Url_def objectKey_def S3_BUCKET_NAME_def AWS_REGION_def)
  show ?thesis
    using origin_key_strips_one_slash [OF h] h u by simp
qed



end
